theory Spec2Isabelle
  imports Main
begin

section \<open>Subject builders: class LoomSubjects\<close>

text \<open>
  The class holds one private field, the project id, fixed at construction; every method
  is a template string over it. A method of the class is modelled as a function of the
  project id (and of the method's own argument, where it has one).
\<close>

definition workSubmit :: "string \<Rightarrow> string" where
  "workSubmit projectId = ''loom.'' @ projectId @ ''.work.submit''"

definition workStatus :: "string \<Rightarrow> string \<Rightarrow> string" where
  "workStatus projectId workItemId = ''loom.'' @ projectId @ ''.work.status.'' @ workItemId"

definition workList :: "string \<Rightarrow> string" where
  "workList projectId = ''loom.'' @ projectId @ ''.work.list''"

definition workGet :: "string \<Rightarrow> string" where
  "workGet projectId = ''loom.'' @ projectId @ ''.work.get''"

definition workCancel :: "string \<Rightarrow> string" where
  "workCancel projectId = ''loom.'' @ projectId @ ''.work.cancel''"

definition agentsList :: "string \<Rightarrow> string" where
  "agentsList projectId = ''loom.'' @ projectId @ ''.agents.list''"

definition agentDetails :: "string \<Rightarrow> string \<Rightarrow> string" where
  "agentDetails projectId agentGuid = ''loom.'' @ projectId @ ''.agents.'' @ agentGuid"

definition agentShutdown :: "string \<Rightarrow> string" where
  "agentShutdown projectId = ''loom.'' @ projectId @ ''.agents.shutdown''"

definition targetsList :: "string \<Rightarrow> string" where
  "targetsList projectId = ''loom.'' @ projectId @ ''.targets.list''"

definition targetsRegister :: "string \<Rightarrow> string" where
  "targetsRegister projectId = ''loom.'' @ projectId @ ''.targets.register''"

definition targetsGet :: "string \<Rightarrow> string" where
  "targetsGet projectId = ''loom.'' @ projectId @ ''.targets.get''"

definition targetsUpdate :: "string \<Rightarrow> string" where
  "targetsUpdate projectId = ''loom.'' @ projectId @ ''.targets.update''"

definition targetsRemove :: "string \<Rightarrow> string" where
  "targetsRemove projectId = ''loom.'' @ projectId @ ''.targets.remove''"

definition targetsTest :: "string \<Rightarrow> string" where
  "targetsTest projectId = ''loom.'' @ projectId @ ''.targets.test''"

definition targetsEnable :: "string \<Rightarrow> string" where
  "targetsEnable projectId = ''loom.'' @ projectId @ ''.targets.enable''"

definition targetsDisable :: "string \<Rightarrow> string" where
  "targetsDisable projectId = ''loom.'' @ projectId @ ''.targets.disable''"

definition spinUpTrigger :: "string \<Rightarrow> string" where
  "spinUpTrigger projectId = ''loom.'' @ projectId @ ''.spinup.trigger''"

definition spinUpStatus :: "string \<Rightarrow> string" where
  "spinUpStatus projectId = ''loom.'' @ projectId @ ''.spinup.status''"

definition spinUpList :: "string \<Rightarrow> string" where
  "spinUpList projectId = ''loom.'' @ projectId @ ''.spinup.list''"

definition stats :: "string \<Rightarrow> string" where
  "stats projectId = ''loom.'' @ projectId @ ''.stats''"

text \<open>
  One invocation of a method of the class: which method, with which argument. The
  category is the third token of the template the method returns; the operation is the
  fixed token after it (the methods \<open>agentDetails\<close> and \<open>stats\<close> have none); the entity id
  is the method's argument.
\<close>

datatype invocation =
    WorkSubmit | WorkStatus string | WorkList | WorkGet | WorkCancel
  | AgentsList | AgentDetails string | AgentShutdown
  | TargetsList | TargetsRegister | TargetsGet | TargetsUpdate | TargetsRemove
  | TargetsTest | TargetsEnable | TargetsDisable
  | SpinUpTrigger | SpinUpStatus | SpinUpList
  | Stats

fun invoke :: "string \<Rightarrow> invocation \<Rightarrow> string" where
  "invoke p WorkSubmit = workSubmit p"
| "invoke p (WorkStatus i) = workStatus p i"
| "invoke p WorkList = workList p"
| "invoke p WorkGet = workGet p"
| "invoke p WorkCancel = workCancel p"
| "invoke p AgentsList = agentsList p"
| "invoke p (AgentDetails g) = agentDetails p g"
| "invoke p AgentShutdown = agentShutdown p"
| "invoke p TargetsList = targetsList p"
| "invoke p TargetsRegister = targetsRegister p"
| "invoke p TargetsGet = targetsGet p"
| "invoke p TargetsUpdate = targetsUpdate p"
| "invoke p TargetsRemove = targetsRemove p"
| "invoke p TargetsTest = targetsTest p"
| "invoke p TargetsEnable = targetsEnable p"
| "invoke p TargetsDisable = targetsDisable p"
| "invoke p SpinUpTrigger = spinUpTrigger p"
| "invoke p SpinUpStatus = spinUpStatus p"
| "invoke p SpinUpList = spinUpList p"
| "invoke p Stats = stats p"

fun category :: "invocation \<Rightarrow> string" where
  "category WorkSubmit = ''work''"
| "category (WorkStatus i) = ''work''"
| "category WorkList = ''work''"
| "category WorkGet = ''work''"
| "category WorkCancel = ''work''"
| "category AgentsList = ''agents''"
| "category (AgentDetails g) = ''agents''"
| "category AgentShutdown = ''agents''"
| "category TargetsList = ''targets''"
| "category TargetsRegister = ''targets''"
| "category TargetsGet = ''targets''"
| "category TargetsUpdate = ''targets''"
| "category TargetsRemove = ''targets''"
| "category TargetsTest = ''targets''"
| "category TargetsEnable = ''targets''"
| "category TargetsDisable = ''targets''"
| "category SpinUpTrigger = ''spinup''"
| "category SpinUpStatus = ''spinup''"
| "category SpinUpList = ''spinup''"
| "category Stats = ''stats''"

fun operation :: "invocation \<Rightarrow> string option" where
  "operation WorkSubmit = Some ''submit''"
| "operation (WorkStatus i) = Some ''status''"
| "operation WorkList = Some ''list''"
| "operation WorkGet = Some ''get''"
| "operation WorkCancel = Some ''cancel''"
| "operation AgentsList = Some ''list''"
| "operation (AgentDetails g) = None"
| "operation AgentShutdown = Some ''shutdown''"
| "operation TargetsList = Some ''list''"
| "operation TargetsRegister = Some ''register''"
| "operation TargetsGet = Some ''get''"
| "operation TargetsUpdate = Some ''update''"
| "operation TargetsRemove = Some ''remove''"
| "operation TargetsTest = Some ''test''"
| "operation TargetsEnable = Some ''enable''"
| "operation TargetsDisable = Some ''disable''"
| "operation SpinUpTrigger = Some ''trigger''"
| "operation SpinUpStatus = Some ''status''"
| "operation SpinUpList = Some ''list''"
| "operation Stats = None"

fun entityId :: "invocation \<Rightarrow> string option" where
  "entityId (WorkStatus i) = Some i"
| "entityId (AgentDetails g) = Some g"
| "entityId m = None"

subsection \<open>The hierarchy as the specification words it\<close>

text \<open>
  The specification's shape \<open>root.<project>.<category>.<operation>[.<id>]\<close>, written out:
  the five tokens joined by dots, the last one optional.
\<close>

definition categories :: "string list" where
  "categories = [''work'', ''agents'', ''targets'', ''spinup'', ''stats'']"

definition hierarchy :: "string \<Rightarrow> string \<Rightarrow> string \<Rightarrow> string \<Rightarrow> string option \<Rightarrow> string" where
  "hierarchy root project cat oper ident =
     root @ ''.'' @ project @ ''.'' @ cat @ ''.'' @ oper
       @ (case ident of None \<Rightarrow> [] | Some i \<Rightarrow> ''.'' @ i)"

definition fits_hierarchy :: "string \<Rightarrow> string \<Rightarrow> bool" where
  "fits_hierarchy project s \<longleftrightarrow>
     (\<exists>cat oper ident. cat \<in> set categories \<and> oper \<noteq> [] \<and>
        s = hierarchy ''loom'' project cat oper ident)"

section \<open>The configuration record\<close>

text \<open>
  \<open>CLIConfiguration\<close> and \<open>DEFAULT_CLI_CONFIG\<close> as SHARED_DEPENDENCIES.md documents them
  (\<open>types/config.ts\<close> of the shared package). The commands and the validator work on
  partial records, so every field is optional here; an absent field is \<open>None\<close>.
\<close>

record CLIConfiguration =
  natsUrl :: "string option"
  projectId :: "string option"
  natsCredentials :: "string option"
  defaultBoundary :: "string option"
  defaultPriority :: "int option"
  outputFormat :: "string option"
  apiUrl :: "string option"
  apiToken :: "string option"

definition empty_config :: CLIConfiguration where
  "empty_config =
     \<lparr> natsUrl = None, projectId = None, natsCredentials = None, defaultBoundary = None,
       defaultPriority = None, outputFormat = None, apiUrl = None, apiToken = None \<rparr>"

definition DEFAULT_CLI_CONFIG :: CLIConfiguration where
  "DEFAULT_CLI_CONFIG =
     empty_config\<lparr> natsUrl := Some ''nats://localhost:4222'',
                   defaultPriority := Some 5,
                   outputFormat := Some ''table'' \<rparr>"

text \<open>
  JavaScript truthiness of an optional string (\<open>undefined\<close> and the empty string are
  falsy), and the idiom \<open>value || fallback\<close> on strings.
\<close>

definition truthy :: "string option \<Rightarrow> bool" where
  "truthy v = (case v of None \<Rightarrow> False | Some s \<Rightarrow> s \<noteq> [])"

definition or_else :: "string option \<Rightarrow> string \<Rightarrow> string" where
  "or_else v d = (case v of None \<Rightarrow> d | Some s \<Rightarrow> if s = [] then d else s)"

text \<open>
  \<open>String.prototype.trim\<close> on byte strings: white space is removed at both ends.
\<close>

definition is_space :: "char \<Rightarrow> bool" where
  "is_space c \<longleftrightarrow> c \<in> set [CHR '' '', CHR 0x09, CHR 0x0A, CHR 0x0B, CHR 0x0C, CHR 0x0D]"

definition trim :: "string \<Rightarrow> string" where
  "trim s = rev (dropWhile is_space (rev (dropWhile is_space s)))"

definition startsWith :: "string \<Rightarrow> string \<Rightarrow> bool" where
  "startsWith s p \<longleftrightarrow> take (length p) s = p"

section \<open>The configuration store (utils/config-file.ts)\<close>

text \<open>
  The fields of the record, addressed by key as \<open>getConfigValue\<close> addresses them, with the
  two value types the record has.
\<close>

datatype config_key =
  NatsUrl | ProjectId | NatsCredentials | DefaultBoundary | DefaultPriority
  | OutputFormat | ApiUrl | ApiToken

datatype config_value = Str string | Number int

fun field :: "config_key \<Rightarrow> CLIConfiguration \<Rightarrow> config_value option" where
  "field NatsUrl c = map_option Str (natsUrl c)"
| "field ProjectId c = map_option Str (projectId c)"
| "field NatsCredentials c = map_option Str (natsCredentials c)"
| "field DefaultBoundary c = map_option Str (defaultBoundary c)"
| "field DefaultPriority c = map_option Number (defaultPriority c)"
| "field OutputFormat c = map_option Str (outputFormat c)"
| "field ApiUrl c = map_option Str (apiUrl c)"
| "field ApiToken c = map_option Str (apiToken c)"

text \<open>
  The persisted file at a path: absent, present with content that does not parse as
  JSON, or present with a JSON object. The process environment holds the four variables
  the test suite resets before each case.
\<close>

datatype config_file = Missing | Malformed | Content CLIConfiguration

type_synonym file_system = "string \<Rightarrow> config_file"

record Environment =
  NATS_URL :: "string option"
  PROJECT_ID :: "string option"
  LOOM_API_URL :: "string option"
  LOOM_API_TOKEN :: "string option"

record LoadOptions =
  configPath :: "string option"
  projectOverride :: "string option"

datatype config_error = MalformedConfigFile string

text \<open>
  Modelled from the spec: \<open>getDefaultConfigPath\<close> of utils/config-file.ts, which is not
  among the sources. The default file is \<open>config.json\<close> in the dot-prefixed directory
  \<open>.loom\<close> under the user's home.
\<close>

definition getDefaultConfigPath :: "string \<Rightarrow> string" where
  "getDefaultConfigPath home = home @ ''/.loom/config.json''"

text \<open>
  Object spread \<open>{...a, ...b}\<close> on partial records: a field that \<open>b\<close> defines wins,
  an absent field leaves the value of \<open>a\<close>.
\<close>

definition over :: "'a option \<Rightarrow> 'a option \<Rightarrow> 'a option" where
  "over lower upper = (case upper of None \<Rightarrow> lower | Some v \<Rightarrow> Some v)"

definition spread :: "CLIConfiguration \<Rightarrow> CLIConfiguration \<Rightarrow> CLIConfiguration" where
  "spread a b =
     \<lparr> natsUrl = over (natsUrl a) (natsUrl b),
       projectId = over (projectId a) (projectId b),
       natsCredentials = over (natsCredentials a) (natsCredentials b),
       defaultBoundary = over (defaultBoundary a) (defaultBoundary b),
       defaultPriority = over (defaultPriority a) (defaultPriority b),
       outputFormat = over (outputFormat a) (outputFormat b),
       apiUrl = over (apiUrl a) (apiUrl b),
       apiToken = over (apiToken a) (apiToken b) \<rparr>"

text \<open>
  Modelled from the spec: the built-in defaults of \<open>loadConfig\<close> in utils/config-file.ts,
  which is not among the sources. They are \<open>DEFAULT_CLI_CONFIG\<close> together with the project
  id \<open>default\<close> that a load without file, environment and override yields.
\<close>

definition builtin_defaults :: CLIConfiguration where
  "builtin_defaults = DEFAULT_CLI_CONFIG\<lparr> projectId := Some ''default'' \<rparr>"

text \<open>
  Modelled from the spec: the path \<open>loadConfig\<close> reads, the given \<open>configPath\<close> or the
  default path (utils/config-file.ts is not among the sources).
\<close>

definition resolve_path :: "string \<Rightarrow> string option \<Rightarrow> string" where
  "resolve_path home p = (case p of None \<Rightarrow> getDefaultConfigPath home | Some q \<Rightarrow> q)"

text \<open>
  Modelled from the spec: reading the configuration file in utils/config-file.ts, which is
  not among the sources. A missing file is the empty object; malformed JSON is a fatal
  error surfaced to the caller.
\<close>

definition read_config_file :: "file_system \<Rightarrow> string \<Rightarrow> config_error + CLIConfiguration" where
  "read_config_file fs path =
     (case fs path of
        Missing \<Rightarrow> Inr empty_config
      | Malformed \<Rightarrow> Inl (MalformedConfigFile path)
      | Content c \<Rightarrow> Inr c)"

text \<open>
  Modelled from the spec: the environment step of \<open>loadConfig\<close> in utils/config-file.ts,
  which is not among the sources. Each recognised variable is mapped to exactly one
  field and overwrites it only when the variable is set.
\<close>

definition apply_environment :: "Environment \<Rightarrow> CLIConfiguration \<Rightarrow> CLIConfiguration" where
  "apply_environment env config =
     (let c1 = (case NATS_URL env of None \<Rightarrow> config | Some v \<Rightarrow> config\<lparr>natsUrl := Some v\<rparr>);
          c2 = (case PROJECT_ID env of None \<Rightarrow> c1 | Some v \<Rightarrow> c1\<lparr>projectId := Some v\<rparr>);
          c3 = (case LOOM_API_URL env of None \<Rightarrow> c2 | Some v \<Rightarrow> c2\<lparr>apiUrl := Some v\<rparr>);
          c4 = (case LOOM_API_TOKEN env of None \<Rightarrow> c3 | Some v \<Rightarrow> c3\<lparr>apiToken := Some v\<rparr>)
      in c4)"

text \<open>
  Modelled from the spec: the override step of \<open>loadConfig\<close> in utils/config-file.ts,
  which is not among the sources. \<open>projectOverride\<close> is applied only to the project id and
  only if non-empty.
\<close>

definition apply_override :: "string option \<Rightarrow> CLIConfiguration \<Rightarrow> CLIConfiguration" where
  "apply_override ov config =
     (case ov of
        None \<Rightarrow> config
      | Some p \<Rightarrow> if p = [] then config else config\<lparr>projectId := Some p\<rparr>)"

text \<open>
  Modelled from the spec: \<open>loadConfig\<close> of utils/config-file.ts, which is not among the
  sources. The four sources are applied in ascending precedence: built-in defaults, file,
  environment, override.
\<close>

definition loadConfig ::
  "file_system \<Rightarrow> Environment \<Rightarrow> string \<Rightarrow> LoadOptions \<Rightarrow> config_error + CLIConfiguration" where
  "loadConfig fs env home source =
     (case read_config_file fs (resolve_path home (configPath source)) of
        Inl e \<Rightarrow> Inl e
      | Inr fileConfig \<Rightarrow>
          Inr (apply_override (projectOverride source)
                 (apply_environment env (spread builtin_defaults fileConfig))))"

text \<open>
  Modelled from the spec: \<open>saveConfig\<close> of utils/config-file.ts, which is not among the
  sources. It reads the existing file content (the empty object if the file is absent),
  shallow-merges the partial record on top and writes the result back.
\<close>

definition saveConfig ::
  "CLIConfiguration \<Rightarrow> string \<Rightarrow> file_system \<Rightarrow> config_error + file_system" where
  "saveConfig partial path fs =
     (case read_config_file fs path of
        Inl e \<Rightarrow> Inl e
      | Inr existing \<Rightarrow> Inr (fs(path := Content (spread existing partial))))"

text \<open>\<open>saveConfig(partial, path)\<close> followed by \<open>loadConfig\<close> of the same path.\<close>

definition save_then_load ::
  "CLIConfiguration \<Rightarrow> string \<Rightarrow> file_system \<Rightarrow> Environment \<Rightarrow> string \<Rightarrow> string option
     \<Rightarrow> config_error + CLIConfiguration" where
  "save_then_load partial path fs env home ov =
     (case saveConfig partial path fs of
        Inl e \<Rightarrow> Inl e
      | Inr fs' \<Rightarrow> loadConfig fs' env home \<lparr> configPath = Some path, projectOverride = ov \<rparr>)"

text \<open>
  Modelled from the spec: the four rules of \<open>validateConfig\<close> in utils/config-file.ts,
  which is not among the sources, one function per rule, with the violation strings that
  src/__tests__/config-file.test.ts expects. Each rule looks at its own field only and
  applies when the field is present.
\<close>

definition natsUrl_rule :: "string option \<Rightarrow> string list" where
  "natsUrl_rule v =
     (case v of
        None \<Rightarrow> []
      | Some u \<Rightarrow> if startsWith u ''nats://'' then [] else [''natsUrl must start with nats://''])"

definition defaultPriority_rule :: "int option \<Rightarrow> string list" where
  "defaultPriority_rule v =
     (case v of
        None \<Rightarrow> []
      | Some p \<Rightarrow> if 1 \<le> p \<and> p \<le> 10 then [] else [''defaultPriority must be between 1 and 10''])"

definition defaultBoundary_rule :: "string option \<Rightarrow> string list" where
  "defaultBoundary_rule v =
     (case v of
        None \<Rightarrow> []
      | Some b \<Rightarrow> if trim b = [] then [''defaultBoundary must be a non-empty string''] else [])"

definition outputFormat_rule :: "string option \<Rightarrow> string list" where
  "outputFormat_rule v =
     (case v of
        None \<Rightarrow> []
      | Some f \<Rightarrow> if f = ''table'' \<or> f = ''json'' then []
                  else [''outputFormat must be either \"table\" or \"json\"''])"

text \<open>
  Modelled from the spec: \<open>validateConfig\<close> of utils/config-file.ts, which is not among
  the sources. All four rules are evaluated and their violations listed in order.
\<close>

definition validateConfig :: "CLIConfiguration \<Rightarrow> string list" where
  "validateConfig config =
     natsUrl_rule (natsUrl config) @ defaultPriority_rule (defaultPriority config)
       @ defaultBoundary_rule (defaultBoundary config) @ outputFormat_rule (outputFormat config)"

subsection \<open>The precedence rule as the specification words it\<close>

text \<open>
  The value of a field under a list of sources, highest precedence first: the value of
  the first source that defines it. The file, the environment and the override are read
  as partial records for this purpose.
\<close>

fun highest :: "'a option list \<Rightarrow> 'a option" where
  "highest [] = None"
| "highest (x # xs) = (case x of None \<Rightarrow> highest xs | Some v \<Rightarrow> Some v)"

definition file_values :: "config_file \<Rightarrow> CLIConfiguration" where
  "file_values f = (case f of Content c \<Rightarrow> c | Missing \<Rightarrow> empty_config | Malformed \<Rightarrow> empty_config)"

definition environment_values :: "Environment \<Rightarrow> CLIConfiguration" where
  "environment_values env =
     empty_config\<lparr> natsUrl := NATS_URL env, projectId := PROJECT_ID env,
                   apiUrl := LOOM_API_URL env, apiToken := LOOM_API_TOKEN env \<rparr>"

definition override_values :: "string option \<Rightarrow> CLIConfiguration" where
  "override_values ov =
     empty_config\<lparr> projectId := (case ov of None \<Rightarrow> None
                                  | Some p \<Rightarrow> if p = [] then None else Some p) \<rparr>"

section \<open>The NATS client helper\<close>

text \<open>
  A connection is a handle; the state holds the module variable \<open>cachedConnection\<close>, which
  of the handles are closed, the number of connections created so far (the next handle),
  and the calls made to the outside in order: file reads, \<open>connect\<close>, \<open>drain\<close>, \<open>close\<close>.
  \<open>readFile\<close> and \<open>connect\<close> are parameters: \<open>readFile\<close> returns the content or the
  message of the error it throws, \<open>connect\<close> returns the message of the error it throws or
  \<open>None\<close> when the connection is established. \<open>drain\<close> and \<open>close\<close> are taken to succeed.
  A thrown \<open>Error\<close> is the left injection, carrying its message.
\<close>

type_synonym NatsConnection = nat

record ConnectionOptions =
  servers :: string
  name :: string
  maxReconnectAttempts :: nat
  reconnectTimeWait :: nat
  authenticator :: "string option"

datatype nats_event =
  ReadFile string | Connect ConnectionOptions | Drain NatsConnection | Close NatsConnection

record nats_state =
  cachedConnection :: "NatsConnection option"
  isClosed :: "NatsConnection \<Rightarrow> bool"
  created :: nat
  events :: "nats_event list"

definition cachedOpen :: "nats_state \<Rightarrow> NatsConnection option" where
  "cachedOpen s =
     (case cachedConnection s of
        None \<Rightarrow> None
      | Some c \<Rightarrow> if isClosed s c then None else Some c)"

definition initial_options :: "CLIConfiguration \<Rightarrow> ConnectionOptions" where
  "initial_options config =
     \<lparr> servers = or_else (natsUrl config) ''nats://localhost:4222'',
       name = ''loom-shuttle'',
       maxReconnectAttempts = 10,
       reconnectTimeWait = 1000,
       authenticator = None \<rparr>"

definition connect_and_cache ::
  "(ConnectionOptions \<Rightarrow> string option) \<Rightarrow> ConnectionOptions \<Rightarrow> nats_state
     \<Rightarrow> (string + NatsConnection) \<times> nats_state" where
  "connect_and_cache connect opts s =
     (case connect opts of
        Some err \<Rightarrow> (Inl err, s\<lparr>events := events s @ [Connect opts]\<rparr>)
      | None \<Rightarrow>
          (Inr (created s),
           s\<lparr>cachedConnection := Some (created s),
             isClosed := (isClosed s)(created s := False),
             created := Suc (created s),
             events := events s @ [Connect opts]\<rparr>))"

text \<open>
  The helper exists in two generations. The earlier one (credentials support is a
  commented-out TODO there) carries the suffix \<open>_0\<close>.
\<close>

definition getNATSConnection_0 ::
  "(ConnectionOptions \<Rightarrow> string option) \<Rightarrow> CLIConfiguration \<Rightarrow> nats_state
     \<Rightarrow> (string + NatsConnection) \<times> nats_state" where
  "getNATSConnection_0 connect config s =
     (case cachedOpen s of
        Some c \<Rightarrow> (Inr c, s)
      | None \<Rightarrow> connect_and_cache connect (initial_options config) s)"

definition getNATSConnection ::
  "(string \<Rightarrow> string + string) \<Rightarrow> (ConnectionOptions \<Rightarrow> string option)
     \<Rightarrow> CLIConfiguration \<Rightarrow> nats_state \<Rightarrow> (string + NatsConnection) \<times> nats_state" where
  "getNATSConnection readFile connect config s =
     (case cachedOpen s of
        Some c \<Rightarrow> (Inr c, s)
      | None \<Rightarrow>
          (let opts = initial_options config in
           case natsCredentials config of
             None \<Rightarrow> connect_and_cache connect opts s
           | Some path \<Rightarrow>
               if path = [] then connect_and_cache connect opts s
               else
                 (let s1 = s\<lparr>events := events s @ [ReadFile path]\<rparr> in
                  case readFile path of
                    Inr credsContent \<Rightarrow>
                      connect_and_cache connect (opts\<lparr>authenticator := Some credsContent\<rparr>) s1
                  | Inl err \<Rightarrow>
                      (Inl (''Failed to read NATS credentials file: '' @ path @ '': '' @ err),
                       s1))))"

definition closeNATSConnection :: "nats_state \<Rightarrow> nats_state" where
  "closeNATSConnection s =
     (case cachedOpen s of
        Some c \<Rightarrow>
          s\<lparr>events := events s @ [Drain c, Close c],
            isClosed := (isClosed s)(c := True),
            cachedConnection := None\<rparr>
      | None \<Rightarrow> s)"

definition closeNATSConnection_0 :: "nats_state \<Rightarrow> nats_state" where
  "closeNATSConnection_0 s =
     (case cachedOpen s of
        Some c \<Rightarrow>
          s\<lparr>events := events s @ [Drain c, Close c],
            isClosed := (isClosed s)(c := True),
            cachedConnection := None\<rparr>
      | None \<Rightarrow> s)"

fun reads :: "nats_event list \<Rightarrow> string list" where
  "reads [] = []"
| "reads (ReadFile p # es) = p # reads es"
| "reads (e # es) = reads es"

fun connects :: "nats_event list \<Rightarrow> ConnectionOptions list" where
  "connects [] = []"
| "connects (Connect opts # es) = opts # connects es"
| "connects (e # es) = connects es"

section \<open>Command actions\<close>

text \<open>
  The response envelope every client call returns, and the part of each command action
  that handles a failed response: the message thrown there reaches the handler of the
  action, which prints it after \<open>Error: \<close> and exits with code 1. A command action is
  modelled by the message it prints for a response, \<open>None\<close> when the response is ok.
\<close>

fun string_of_nat :: "nat \<Rightarrow> string" where
  "string_of_nat n =
     (if n < 10 then [''0123456789'' ! n]
      else string_of_nat (n div 10) @ [''0123456789'' ! (n mod 10)])"

declare string_of_nat.simps [simp del]

record ResponseEnvelope =
  ok :: bool
  status :: nat
  error :: "string option"
  data :: "string option"

definition failure_message :: "ResponseEnvelope \<Rightarrow> string" where
  "failure_message response = or_else (error response) (''HTTP '' @ string_of_nat (status response))"

definition report :: "string \<Rightarrow> string" where
  "report message = ''Error: '' @ message"

definition targetsShowCommand :: "string \<Rightarrow> ResponseEnvelope \<Rightarrow> string option" where
  "targetsShowCommand target response =
     (if \<not> ok response then
        (if status response = 404 then Some (report (''Target not found: '' @ target))
         else Some (report (failure_message response)))
      else None)"

definition workShowAction :: "string \<Rightarrow> ResponseEnvelope \<Rightarrow> string option" where
  "workShowAction workId response =
     (if \<not> ok response then Some (report (failure_message response)) else None)"

definition workCancelAction :: "string \<Rightarrow> ResponseEnvelope \<Rightarrow> string option" where
  "workCancelAction workId response =
     (if \<not> ok response then Some (report (failure_message response)) else None)"

definition shutdownCommand :: "string \<Rightarrow> ResponseEnvelope \<Rightarrow> string option" where
  "shutdownCommand agentGuid response =
     (if \<not> ok response then Some (report (failure_message response)) else None)"

text \<open>
  The submit action up to the work details it submits. \<open>options.priority\<close> is produced by
  \<open>parseInt\<close>: absent, \<open>NaN\<close> or an integer. The action prompts, exits with a message, or
  goes on to submit the details. \<open>priority_or_default\<close> is the expression
  \<open>options.priority || config.defaultPriority || 5\<close>.
\<close>

datatype jsnumber = NaN | Num int

record SubmitOptions =
  boundary :: "string option"
  capability :: "string option"
  priority :: "jsnumber option"
  agentType :: "string option"
  deadline :: "string option"
  interactive :: bool

datatype WorkDetails =
  WorkDetails (wdDescription: string) (wdBoundary: string) (wdCapability: string)
    (wdPriority: jsnumber)

datatype submit_step = Prompt | Exit string | Submit WorkDetails

definition truthy_number :: "jsnumber option \<Rightarrow> bool" where
  "truthy_number v = (case v of None \<Rightarrow> False | Some NaN \<Rightarrow> False | Some (Num n) \<Rightarrow> n \<noteq> 0)"

definition priority_or_default :: "jsnumber option \<Rightarrow> int option \<Rightarrow> jsnumber" where
  "priority_or_default optionPriority configPriority =
     (case optionPriority of
        Some (Num n) \<Rightarrow>
          if n \<noteq> 0 then Num n
          else (case configPriority of
                  Some d \<Rightarrow> if d \<noteq> 0 then Num d else Num 5
                | None \<Rightarrow> Num 5)
      | _ \<Rightarrow>
          (case configPriority of
             Some d \<Rightarrow> if d \<noteq> 0 then Num d else Num 5
           | None \<Rightarrow> Num 5))"

definition submitCommand ::
  "bool \<Rightarrow> string option \<Rightarrow> SubmitOptions \<Rightarrow> CLIConfiguration \<Rightarrow> submit_step" where
  "submitCommand json description options config =
     (let needsInteractive =
            (interactive options \<or> \<not> truthy description \<or> \<not> truthy (boundary options)
              \<or> \<not> truthy (capability options))
      in if needsInteractive \<and> \<not> json then Prompt
         else
           (case description of
              None \<Rightarrow> Exit ''Description is required (use --interactive for prompts)''
            | Some d \<Rightarrow>
                if d = [] then Exit ''Description is required (use --interactive for prompts)''
                else
                  (case boundary options of
                     None \<Rightarrow> Exit ''Boundary is required (use --boundary or --interactive)''
                   | Some b \<Rightarrow>
                       if b = [] then
                         Exit ''Boundary is required (use --boundary or --interactive)''
                       else
                         (case capability options of
                            None \<Rightarrow>
                              Exit ''Capability is required (use --capability or --interactive)''
                          | Some c \<Rightarrow>
                              if c = [] then
                                Exit ''Capability is required (use --capability or --interactive)''
                              else if trim b = [] then
                                Exit ''Boundary must be a non-empty string''
                              else if truthy (agentType options)
                                      \<and> agentType options \<noteq> Some ''copilot-cli''
                                      \<and> agentType options \<noteq> Some ''claude-code'' then
                                Exit (''Invalid agent type: '' @ or_else (agentType options) [])
                              else
                                Submit (WorkDetails d b c
                                  (priority_or_default (priority options)
                                     (defaultPriority config)))))))"

section \<open>Concrete inputs\<close>

definition no_environment :: Environment where
  "no_environment =
     \<lparr> NATS_URL = None, PROJECT_ID = None, LOOM_API_URL = None, LOOM_API_TOKEN = None \<rparr>"

definition no_files :: file_system where
  "no_files = (\<lambda>path. Missing)"

definition plain_load :: "string \<Rightarrow> LoadOptions" where
  "plain_load path = \<lparr> configPath = Some path, projectOverride = None \<rparr>"

definition scenario_file :: CLIConfiguration where
  "scenario_file = empty_config\<lparr> natsUrl := Some ''nats://file:4222'' \<rparr>"

definition scenario_files :: file_system where
  "scenario_files = no_files(''/tmp/config.json'' := Content scenario_file)"

definition scenario_environment :: Environment where
  "scenario_environment = no_environment\<lparr> NATS_URL := Some ''nats://env:4222'' \<rparr>"

definition saved_partial :: CLIConfiguration where
  "saved_partial = empty_config\<lparr> natsUrl := Some ''nats://saved:4222'' \<rparr>"

definition update_partial :: CLIConfiguration where
  "update_partial = empty_config\<lparr> projectId := Some ''updated-project'' \<rparr>"

definition invalid_everywhere :: CLIConfiguration where
  "invalid_everywhere =
     empty_config\<lparr> natsUrl := Some ''http://x'', defaultPriority := Some 15,
                   defaultBoundary := Some ''   '', outputFormat := Some ''xml'' \<rparr>"

definition valid_candidate :: CLIConfiguration where
  "valid_candidate =
     empty_config\<lparr> natsUrl := Some ''nats://localhost:4222'', defaultPriority := Some 5,
                   defaultBoundary := Some ''personal'', outputFormat := Some ''table'' \<rparr>"

definition no_creds_config :: CLIConfiguration where
  "no_creds_config =
     \<lparr> natsUrl = None, projectId = Some ''default'', natsCredentials = None,
       defaultBoundary = None, defaultPriority = None, outputFormat = None,
       apiUrl = None, apiToken = None \<rparr>"

definition creds_config :: CLIConfiguration where
  "creds_config = no_creds_config\<lparr>natsCredentials := Some ''/etc/loom/nats.creds''\<rparr>"

definition fresh_state :: nats_state where
  "fresh_state = \<lparr> cachedConnection = None, isClosed = (\<lambda>c. False), created = 0, events = [] \<rparr>"

definition warm_state :: nats_state where
  "warm_state =
     \<lparr> cachedConnection = Some 0, isClosed = (\<lambda>c. False), created = 1,
       events = [Connect (initial_options no_creds_config)] \<rparr>"

definition readable :: "string \<Rightarrow> string + string" where
  "readable path = Inr ''SECRET''"

definition unreadable :: "string \<Rightarrow> string + string" where
  "unreadable path = Inl ''ENOENT: no such file or directory''"

definition reachable :: "ConnectionOptions \<Rightarrow> string option" where
  "reachable opts = None"

definition not_found :: ResponseEnvelope where
  "not_found = \<lparr> ok = False, status = 404, error = None, data = None \<rparr>"

definition server_error :: ResponseEnvelope where
  "server_error = \<lparr> ok = False, status = 500, error = None, data = None \<rparr>"

definition cli_options :: SubmitOptions where
  "cli_options =
     \<lparr> boundary = Some ''production'', capability = Some ''typescript'', priority = None,
       agentType = None, deadline = None, interactive = False \<rparr>"

section \<open>Helper facts\<close>

lemmas LoomSubjects_defs =
  workSubmit_def workStatus_def workList_def workGet_def workCancel_def
  agentsList_def agentDetails_def agentShutdown_def
  targetsList_def targetsRegister_def targetsGet_def targetsUpdate_def targetsRemove_def
  targetsTest_def targetsEnable_def targetsDisable_def
  spinUpTrigger_def spinUpStatus_def spinUpList_def stats_def

lemma dot_free_prefix_unique:
  assumes "CHR ''.'' \<notin> set p1" "CHR ''.'' \<notin> set p2"
    and "p1 @ CHR ''.'' # r1 = p2 @ CHR ''.'' # r2"
  shows "p1 = p2"
proof -
  have t: "takeWhile (\<lambda>c. c \<noteq> CHR ''.'') (p @ CHR ''.'' # r) = p"
    if "CHR ''.'' \<notin> set p" for p r
    using that by (induction p) auto
  from assms(3) have "takeWhile (\<lambda>c. c \<noteq> CHR ''.'') (p1 @ CHR ''.'' # r1)
      = takeWhile (\<lambda>c. c \<noteq> CHR ''.'') (p2 @ CHR ''.'' # r2)" by simp
  then show ?thesis using assms(1,2) by (simp add: t)
qed

lemma invoke_prefix:
  "\<exists>r. invoke p m = ''loom.'' @ p @ CHR ''.'' # r"
  by (cases m) (simp_all add: LoomSubjects_defs)

lemma invoke_same_project_category:
  "invoke p m1 = invoke p m2 \<Longrightarrow> category m1 = category m2"
  by (cases m1; cases m2; simp add: LoomSubjects_defs)

lemma invoke_same_invocation_project:
  "invoke p1 m = invoke p2 m \<Longrightarrow> p1 = p2"
  by (cases m) (simp_all add: LoomSubjects_defs)

lemma invoke_dot_free_projects:
  assumes "CHR ''.'' \<notin> set p1" "CHR ''.'' \<notin> set p2"
    and "invoke p1 m1 = invoke p2 m2"
  shows "p1 = p2"
proof -
  obtain r1 where r1: "invoke p1 m1 = ''loom.'' @ p1 @ CHR ''.'' # r1"
    using invoke_prefix by blast
  obtain r2 where r2: "invoke p2 m2 = ''loom.'' @ p2 @ CHR ''.'' # r2"
    using invoke_prefix by blast
  from assms(3) r1 r2 have "p1 @ CHR ''.'' # r1 = p2 @ CHR ''.'' # r2" by simp
  with assms(1,2) show ?thesis by (rule dot_free_prefix_unique)
qed

lemma invoke_determined:
  "category m1 = category m2 \<Longrightarrow> operation m1 = operation m2 \<Longrightarrow>
   entityId m1 = entityId m2 \<Longrightarrow> m1 = m2"
  by (cases m1; cases m2; simp)

lemma invoke_same_operation_rev:
  "operation m1 = operation m2 \<Longrightarrow> entityId m1 = entityId m2 \<Longrightarrow>
   category m1 \<noteq> category m2 \<Longrightarrow> rev (invoke p1 m1) \<noteq> rev (invoke p2 m2)"
  by (cases m1; cases m2; simp add: LoomSubjects_defs)

lemma field_spread: "field k (spread a b) = highest [field k b, field k a]"
  by (cases k) (simp_all add: spread_def over_def split: option.splits)

lemma field_apply_environment:
  "field k (apply_environment env c) = highest [field k (environment_values env), field k c]"
  by (cases k)
     (simp_all add: apply_environment_def environment_values_def empty_config_def Let_def
        split: option.splits)

lemma field_apply_override:
  "field k (apply_override ov c) = highest [field k (override_values ov), field k c]"
  by (cases k)
     (simp_all add: apply_override_def override_values_def empty_config_def
        split: option.splits)

lemma read_config_file_values:
  "fs path \<noteq> Malformed \<Longrightarrow> read_config_file fs path = Inr (file_values (fs path))"
  by (cases "fs path") (simp_all add: read_config_file_def file_values_def)

lemma loadConfig_field:
  assumes "fs (resolve_path home (configPath source)) \<noteq> Malformed"
  shows "\<exists>cfg. loadConfig fs env home source = Inr cfg \<and>
     field k cfg = highest [field k (override_values (projectOverride source)),
                            field k (environment_values env),
                            field k (file_values (fs (resolve_path home (configPath source)))),
                            field k builtin_defaults]"
  using assms
  by (simp add: loadConfig_def read_config_file_values field_apply_override
      field_apply_environment field_spread split: option.splits)

lemma saveConfig_ok:
  "fs path \<noteq> Malformed \<Longrightarrow>
   saveConfig partial path fs = Inr (fs(path := Content (spread (file_values (fs path)) partial)))"
  by (simp add: saveConfig_def read_config_file_values)

lemma trim_blank: "trim ''   '' = []"
  by (simp add: trim_def is_space_def)

lemma trim_personal: "trim ''personal'' = ''personal''"
  by (simp add: trim_def is_space_def)

lemma validate_priority_15: "validateConfig (empty_config\<lparr> defaultPriority := Some 15 \<rparr>)
       = [''defaultPriority must be between 1 and 10'']"
  by (simp add: validateConfig_def natsUrl_rule_def defaultPriority_rule_def
        defaultBoundary_rule_def outputFormat_rule_def empty_config_def)

lemma validate_scheme_http:    "validateConfig (empty_config\<lparr> natsUrl := Some ''http://x'' \<rparr>)
       = [''natsUrl must start with nats://'']"
  by (simp add: validateConfig_def natsUrl_rule_def defaultPriority_rule_def
        defaultBoundary_rule_def outputFormat_rule_def empty_config_def startsWith_def)

lemma validate_blank_boundary:    "validateConfig (empty_config\<lparr> defaultBoundary := Some ''   '' \<rparr>)
       = [''defaultBoundary must be a non-empty string'']"
  by (simp add: validateConfig_def natsUrl_rule_def defaultPriority_rule_def
        defaultBoundary_rule_def outputFormat_rule_def empty_config_def trim_blank)

lemma validate_invalid_everywhere:    "validateConfig invalid_everywhere
     = [''natsUrl must start with nats://'', ''defaultPriority must be between 1 and 10'',
        ''defaultBoundary must be a non-empty string'',
        ''outputFormat must be either \"table\" or \"json\"'']"
  by (simp add: validateConfig_def natsUrl_rule_def defaultPriority_rule_def
        defaultBoundary_rule_def outputFormat_rule_def empty_config_def startsWith_def
        trim_blank invalid_everywhere_def)

lemma validate_valid_candidate:    "validateConfig valid_candidate = []"
  by (simp add: validateConfig_def natsUrl_rule_def defaultPriority_rule_def
        defaultBoundary_rule_def outputFormat_rule_def empty_config_def startsWith_def
        trim_personal valid_candidate_def)

lemma validateConfig_length: "length (validateConfig c) \<le> 4"
    by (simp add: validateConfig_def natsUrl_rule_def defaultPriority_rule_def
        defaultBoundary_rule_def outputFormat_rule_def split: option.splits)


lemma natsUrl_rule_mem:
  "m \<in> set (natsUrl_rule v) \<longleftrightarrow>
     m = ''natsUrl must start with nats://''
     \<and> (case v of None \<Rightarrow> False | Some u \<Rightarrow> \<not> startsWith u ''nats://'')"
  by (cases v) (auto simp add: natsUrl_rule_def)

lemma defaultPriority_rule_mem:
  "m \<in> set (defaultPriority_rule v) \<longleftrightarrow>
     m = ''defaultPriority must be between 1 and 10''
     \<and> (case v of None \<Rightarrow> False | Some p \<Rightarrow> p < 1 \<or> 10 < p)"
  by (cases v) (auto simp add: defaultPriority_rule_def)

lemma defaultBoundary_rule_mem:
  "m \<in> set (defaultBoundary_rule v) \<longleftrightarrow>
     m = ''defaultBoundary must be a non-empty string''
     \<and> (case v of None \<Rightarrow> False | Some b \<Rightarrow> trim b = [])"
  by (cases v) (auto simp add: defaultBoundary_rule_def)

lemma outputFormat_rule_mem:
  "m \<in> set (outputFormat_rule v) \<longleftrightarrow>
     m = ''outputFormat must be either \"table\" or \"json\"''
     \<and> (case v of None \<Rightarrow> False | Some f \<Rightarrow> f \<noteq> ''table'' \<and> f \<noteq> ''json'')"
  by (cases v) (auto simp add: outputFormat_rule_def)

lemmas rule_mem = natsUrl_rule_mem defaultPriority_rule_mem defaultBoundary_rule_mem
  outputFormat_rule_mem

lemma scheme_rule_reported: "(''natsUrl must start with nats://'' \<in> set (validateConfig c))
       = (case natsUrl c of None \<Rightarrow> False | Some u \<Rightarrow> \<not> startsWith u ''nats://'')"
  by (simp add: validateConfig_def rule_mem)

lemma priority_rule_reported:    "(''defaultPriority must be between 1 and 10'' \<in> set (validateConfig c))
       = (case defaultPriority c of None \<Rightarrow> False | Some p \<Rightarrow> p < 1 \<or> 10 < p)"
  by (simp add: validateConfig_def rule_mem)

lemma boundary_rule_reported:    "(''defaultBoundary must be a non-empty string'' \<in> set (validateConfig c))
       = (case defaultBoundary c of None \<Rightarrow> False | Some b \<Rightarrow> trim b = [])"
  by (simp add: validateConfig_def rule_mem)

lemma format_rule_reported:    "(''outputFormat must be either \"table\" or \"json\"'' \<in> set (validateConfig c))
       = (case outputFormat c of None \<Rightarrow> False | Some f \<Rightarrow> f \<noteq> ''table'' \<and> f \<noteq> ''json'')"
  by (simp add: validateConfig_def rule_mem)

lemma reads_append [simp]: "reads (xs @ ys) = reads xs @ reads ys"
  by (induction xs rule: reads.induct) auto

lemma connects_append [simp]: "connects (xs @ ys) = connects xs @ connects ys"
  by (induction xs rule: connects.induct) auto

lemma cachedOpen_Some: "cachedConnection s = Some c \<Longrightarrow> \<not> isClosed s c \<Longrightarrow> cachedOpen s = Some c"
  by (simp add: cachedOpen_def)

lemma cachedOpen_close: "cachedOpen (closeNATSConnection s) = None"
  by (auto simp add: closeNATSConnection_def cachedOpen_def split: option.splits)

lemma connect_and_cache_Inr:
  "connect_and_cache connect opts s = (Inr c, s') \<Longrightarrow>
     c = created s \<and> cachedConnection s' = Some c \<and> \<not> isClosed s' c
     \<and> created s' = Suc (created s) \<and> events s' = events s @ [Connect opts]"
  by (auto simp add: connect_and_cache_def split: option.splits)

lemma connect_and_cache_Inl:
  "connect_and_cache connect opts s = (Inl e, s') \<Longrightarrow>
     cachedConnection s' = cachedConnection s \<and> created s' = created s"
  by (auto simp add: connect_and_cache_def split: option.splits)

lemma get_hit:
  "cachedOpen s = Some c \<Longrightarrow> getNATSConnection readFile connect config s = (Inr c, s)"
  by (simp add: getNATSConnection_def)

lemma get_no_creds:
  "cachedOpen s = None \<Longrightarrow> \<not> truthy (natsCredentials config) \<Longrightarrow>
   getNATSConnection readFile connect config s
     = connect_and_cache connect (initial_options config) s"
  by (simp add: getNATSConnection_def truthy_def split: option.splits)

lemma get_creds_read:
  "cachedOpen s = None \<Longrightarrow> natsCredentials config = Some path \<Longrightarrow> path \<noteq> [] \<Longrightarrow>
   readFile path = Inr content \<Longrightarrow>
   getNATSConnection readFile connect config s
     = connect_and_cache connect ((initial_options config)\<lparr>authenticator := Some content\<rparr>)
         (s\<lparr>events := events s @ [ReadFile path]\<rparr>)"
  by (simp add: getNATSConnection_def)

lemma get_creds_unreadable:
  "cachedOpen s = None \<Longrightarrow> natsCredentials config = Some path \<Longrightarrow> path \<noteq> [] \<Longrightarrow>
   readFile path = Inl err \<Longrightarrow>
   getNATSConnection readFile connect config s
     = (Inl (''Failed to read NATS credentials file: '' @ path @ '': '' @ err),
        s\<lparr>events := events s @ [ReadFile path]\<rparr>)"
  by (simp add: getNATSConnection_def)

lemma get_miss_Inr:
  assumes "cachedOpen s = None"
    and "getNATSConnection readFile connect config s = (Inr c', s')"
  shows "c' = created s \<and> cachedConnection s' = Some c' \<and> \<not> isClosed s' c'
     \<and> created s' = Suc (created s)
     \<and> length (connects (events s')) = Suc (length (connects (events s)))"
proof (cases "truthy (natsCredentials config)")
  case False
  with assms have "connect_and_cache connect (initial_options config) s = (Inr c', s')"
    by (simp add: get_no_creds)
  then show ?thesis by (auto dest!: connect_and_cache_Inr)
next
  case True
  then obtain path where p: "natsCredentials config = Some path" "path \<noteq> []"
    by (auto simp add: truthy_def split: option.splits)
  show ?thesis
  proof (cases "readFile path")
    case (Inl err)
    with assms p show ?thesis by (simp add: get_creds_unreadable)
  next
    case (Inr content)
    with assms p have "connect_and_cache connect
        ((initial_options config)\<lparr>authenticator := Some content\<rparr>)
        (s\<lparr>events := events s @ [ReadFile path]\<rparr>) = (Inr c', s')"
      by (simp add: get_creds_read)
    then show ?thesis by (auto dest!: connect_and_cache_Inr)
  qed
qed

lemma get_Inl:
  assumes "getNATSConnection readFile connect config s = (Inl e, s')"
  shows "cachedConnection s' = cachedConnection s \<and> created s' = created s"
proof (cases "cachedOpen s")
  case (Some c)
  with assms show ?thesis by (simp add: get_hit)
next
  case None
  show ?thesis
  proof (cases "truthy (natsCredentials config)")
    case False
    with assms None have "connect_and_cache connect (initial_options config) s = (Inl e, s')"
      by (simp add: get_no_creds)
    then show ?thesis by (rule connect_and_cache_Inl)
  next
    case True
    then obtain path where p: "natsCredentials config = Some path" "path \<noteq> []"
      by (auto simp add: truthy_def split: option.splits)
    show ?thesis
    proof (cases "readFile path")
      case (Inl err)
      with assms None p show ?thesis by (auto simp add: get_creds_unreadable)
    next
      case (Inr content)
      with assms None p have "connect_and_cache connect
          ((initial_options config)\<lparr>authenticator := Some content\<rparr>)
          (s\<lparr>events := events s @ [ReadFile path]\<rparr>) = (Inl e, s')"
        by (simp add: get_creds_read)
      then show ?thesis by (auto dest!: connect_and_cache_Inl)
    qed
  qed
qed

lemma close_open:
  "cachedOpen s = Some c \<Longrightarrow>
   closeNATSConnection s =
     s\<lparr>events := events s @ [Drain c, Close c],
       isClosed := (isClosed s)(c := True),
       cachedConnection := None\<rparr>"
  by (simp add: closeNATSConnection_def)

lemma close_created: "created (closeNATSConnection s) = created s"
  by (simp add: closeNATSConnection_def split: option.splits)

lemma close_connects: "connects (events (closeNATSConnection s)) = connects (events s)"
  by (simp add: closeNATSConnection_def split: option.splits)

lemma get_progress:
  assumes miss: "cachedOpen s = None"
    and conn: "\<forall>opts. connect opts = None"
    and rd: "\<forall>path. \<exists>content. readFile path = Inr content"
  shows "fst (getNATSConnection readFile connect config s) = Inr (created s)"
proof (cases "truthy (natsCredentials config)")
  case False
  with miss conn show ?thesis by (simp add: get_no_creds connect_and_cache_def)
next
  case True
  then obtain path where p: "natsCredentials config = Some path" "path \<noteq> []"
    by (auto simp add: truthy_def split: option.splits)
  from rd obtain content where "readFile path = Inr content" by blast
  with miss p conn show ?thesis by (simp add: get_creds_read connect_and_cache_def)
qed

lemma reconnect_after_close:
  assumes conn: "\<forall>opts. connect opts = None"
    and rd: "\<forall>path. \<exists>content. readFile path = Inr content"
  shows "fst (getNATSConnection readFile connect config (closeNATSConnection s))
            = Inr (created s)
       \<and> length (connects (events (snd (getNATSConnection readFile connect config
              (closeNATSConnection s)))))
            = Suc (length (connects (events s)))"
proof -
  let ?r = "getNATSConnection readFile connect config (closeNATSConnection s)"
  have miss: "cachedOpen (closeNATSConnection s) = None" by (rule cachedOpen_close)
  from get_progress [OF miss conn rd]
  have f: "fst ?r = Inr (created s)" by (simp add: close_created)
  then have "?r = (Inr (created s), snd ?r)" by (metis prod.collapse)
  from get_miss_Inr [OF miss this]
  have "length (connects (events (snd ?r))) = Suc (length (connects (events s)))"
    by (simp add: close_connects)
  with f show ?thesis by simp
qed

lemma connect_and_cache_events:
  "events (snd (connect_and_cache connect opts s)) = events s @ [Connect opts]"
  by (simp add: connect_and_cache_def split: option.splits)

lemma get_0_hit:
  "cachedOpen s = Some c \<Longrightarrow> getNATSConnection_0 connect config s = (Inr c, s)"
  by (simp add: getNATSConnection_0_def)

lemma get_0_miss:
  "cachedOpen s = None \<Longrightarrow>
   getNATSConnection_0 connect config s = connect_and_cache connect (initial_options config) s"
  by (simp add: getNATSConnection_0_def)

lemma get_no_creds_reads:
  assumes "\<not> truthy (natsCredentials config)"
  shows "reads (events (snd (getNATSConnection readFile connect config s))) = reads (events s)"
proof (cases "cachedOpen s")
  case None
  with assms show ?thesis by (simp add: get_no_creds connect_and_cache_events)
next
  case (Some c)
  then show ?thesis by (simp add: get_hit)
qed

lemma string_of_nat_404: "string_of_nat 404 = ''404''"
  by (simp add: string_of_nat.simps)

lemma string_of_nat_500: "string_of_nat 500 = ''500''"
  by (simp add: string_of_nat.simps)

lemma submitCommand_priority:
  "submitCommand json description options config = Submit wd \<Longrightarrow>
   wdPriority wd = priority_or_default (priority options) (defaultPriority config)"
  by (auto simp add: submitCommand_def Let_def split: if_splits option.splits)

lemma priority_or_default_cases:
  "(optp = Some (Num n) \<and> n \<noteq> 0 \<longrightarrow> priority_or_default optp cfgp = Num n)
   \<and> (\<not> truthy_number optp \<and> cfgp = Some d \<and> d \<noteq> 0 \<longrightarrow> priority_or_default optp cfgp = Num d)
   \<and> (\<not> truthy_number optp \<and> (cfgp = None \<or> cfgp = Some 0)
        \<longrightarrow> priority_or_default optp cfgp = Num 5)
   \<and> priority_or_default optp cfgp \<noteq> NaN \<and> priority_or_default optp cfgp \<noteq> Num 0"
  by (auto simp add: priority_or_default_def truthy_number_def split: option.splits jsnumber.splits)

section \<open>Claims about the configuration store\<close>

text \<open>
  C1: for every field, \<open>loadConfig\<close> resolves the field to the value of the
  highest-precedence source that defines it, in ascending precedence built-in defaults,
  file, environment, \<open>projectOverride\<close> (project id only, and only if non-empty); a source
  that does not define the field is skipped, and the built-in default remains when no
  source defines it. With no file, no environment variable and no override the project id
  is \<open>default\<close> and the transport endpoint \<open>nats://localhost:4222\<close>. A load fails only on
  a malformed file.
\<close>

theorem loadConfig_precedence:
  "(fs (resolve_path home (configPath source)) \<noteq> Malformed \<longrightarrow>
      (\<exists>cfg. loadConfig fs env home source = Inr cfg \<and>
         field k cfg = highest [field k (override_values (projectOverride source)),
                                field k (environment_values env),
                                field k (file_values (fs (resolve_path home (configPath source)))),
                                field k builtin_defaults]))
   \<and> (fs2 (resolve_path home2 (configPath source2)) = Missing \<and> projectOverride source2 = None
      \<longrightarrow> (\<exists>cfg. loadConfig fs2 no_environment home2 source2 = Inr cfg \<and>
            projectId cfg = Some ''default'' \<and> natsUrl cfg = Some ''nats://localhost:4222''))"
proof -
  have a: "fs (resolve_path home (configPath source)) \<noteq> Malformed \<longrightarrow>
      (\<exists>cfg. loadConfig fs env home source = Inr cfg \<and>
         field k cfg = highest [field k (override_values (projectOverride source)),
                                field k (environment_values env),
                                field k (file_values (fs (resolve_path home (configPath source)))),
                                field k builtin_defaults])"
    using loadConfig_field by blast
  have b: "fs2 (resolve_path home2 (configPath source2)) = Missing \<and> projectOverride source2 = None
      \<longrightarrow> (\<exists>cfg. loadConfig fs2 no_environment home2 source2 = Inr cfg \<and>
            projectId cfg = Some ''default'' \<and> natsUrl cfg = Some ''nats://localhost:4222'')"
    by (simp add: loadConfig_def read_config_file_def apply_override_def apply_environment_def
        no_environment_def spread_def over_def builtin_defaults_def DEFAULT_CLI_CONFIG_def
        empty_config_def)
  from a b show ?thesis by blast
qed

text \<open>
  C1 at concrete inputs: the file gives \<open>nats://file:4222\<close>, the environment
  \<open>nats://env:4222\<close>, and the environment wins; with nothing configured the defaults
  appear.
\<close>

theorem loadConfig_precedence_witness:
  "(\<exists>cfg. loadConfig scenario_files scenario_environment ''/home/u''
             (plain_load ''/tmp/config.json'') = Inr cfg
          \<and> field NatsUrl cfg = Some (Str ''nats://env:4222''))
   \<and> (\<exists>cfg. loadConfig no_files no_environment ''/home/u''
             (plain_load ''/tmp/config.json'') = Inr cfg
          \<and> projectId cfg = Some ''default'' \<and> natsUrl cfg = Some ''nats://localhost:4222'')"
proof -
  have p: "resolve_path ''/home/u'' (configPath (plain_load ''/tmp/config.json''))
      = ''/tmp/config.json''"
    "projectOverride (plain_load ''/tmp/config.json'') = None"
    by (simp_all add: resolve_path_def plain_load_def)
  have h1: "scenario_files (resolve_path ''/home/u'' (configPath (plain_load ''/tmp/config.json'')))
      \<noteq> Malformed"
    by (simp add: p scenario_files_def)
  have h2: "no_files (resolve_path ''/home/u'' (configPath (plain_load ''/tmp/config.json'')))
      = Missing \<and> projectOverride (plain_load ''/tmp/config.json'') = None"
    by (simp add: p no_files_def)
  have v: "highest [field NatsUrl (override_values (projectOverride (plain_load ''/tmp/config.json''))),
                    field NatsUrl (environment_values scenario_environment),
                    field NatsUrl (file_values (scenario_files
                       (resolve_path ''/home/u'' (configPath (plain_load ''/tmp/config.json''))))),
                    field NatsUrl builtin_defaults] = Some (Str ''nats://env:4222'')"
    by (simp add: p override_values_def environment_values_def scenario_environment_def
        no_environment_def empty_config_def)
  from loadConfig_precedence
    [where fs = scenario_files and env = scenario_environment and home = "''/home/u''"
       and source = "plain_load ''/tmp/config.json''" and k = NatsUrl
       and ?fs2.0 = no_files and ?home2.0 = "''/home/u''"
       and ?source2.0 = "plain_load ''/tmp/config.json''"]
    h1 h2 v
  show ?thesis by simp
qed

text \<open>
  C2 (as stated, refuted): after \<open>saveConfig(P)\<close>, \<open>loadConfig()\<close> yields every field of
  \<open>P\<close> with the saved value. The environment has precedence over the file: with the
  endpoint variable set to \<open>nats://env:4222\<close>, saving \<open>nats://saved:4222\<close> and loading
  yields \<open>nats://env:4222\<close>.
\<close>

theorem saveConfig_environment_counterexample:
  "natsUrl saved_partial = Some ''nats://saved:4222''
   \<and> save_then_load saved_partial ''/tmp/config.json'' no_files scenario_environment
        ''/home/u'' None
      = Inr (builtin_defaults\<lparr> natsUrl := Some ''nats://env:4222'' \<rparr>)"
  by (simp add: saved_partial_def save_then_load_def saveConfig_def read_config_file_def
      no_files_def loadConfig_def resolve_path_def apply_override_def apply_environment_def
      scenario_environment_def no_environment_def spread_def over_def builtin_defaults_def
      DEFAULT_CLI_CONFIG_def empty_config_def)

text \<open>
  C2 (amended): on a file that is absent or well-formed, \<open>saveConfig(P)\<close> writes the
  shallow merge of \<open>P\<close> on top of the existing content, so a field of the file is the
  value of \<open>P\<close> if \<open>P\<close> defines it and the existing value otherwise. A following
  \<open>loadConfig\<close> resolves every field from override, environment, \<open>P\<close>, previous content
  and defaults, in this order: a field of \<open>P\<close> that neither the override nor the
  environment defines is loaded with the saved value, and a field that \<open>P\<close> does not
  mention is loaded as it was before the save.
\<close>

theorem saveConfig_roundtrip:
  "fs path \<noteq> Malformed \<longrightarrow>
     (\<exists>cfg cfg0.
        saveConfig partial path fs
          = Inr (fs(path := Content (spread (file_values (fs path)) partial)))
        \<and> field k (spread (file_values (fs path)) partial)
            = highest [field k partial, field k (file_values (fs path))]
        \<and> save_then_load partial path fs env home ov = Inr cfg
        \<and> loadConfig fs env home \<lparr> configPath = Some path, projectOverride = ov \<rparr> = Inr cfg0
        \<and> field k cfg = highest [field k (override_values ov), field k (environment_values env),
                                 field k partial, field k (file_values (fs path)),
                                 field k builtin_defaults]
        \<and> (field k (override_values ov) = None \<and> field k (environment_values env) = None
             \<and> field k partial = Some v \<longrightarrow> field k cfg = Some v)
        \<and> (field k partial = None \<longrightarrow> field k cfg = field k cfg0))"
proof
  assume ok: "fs path \<noteq> Malformed"
  let ?merged = "spread (file_values (fs path)) partial"
  let ?fs' = "fs(path := Content ?merged)"
  let ?src = "\<lparr> configPath = Some path, projectOverride = ov \<rparr>"
  have rp: "resolve_path home (Some path) = path"
    by (simp add: resolve_path_def)
  have s: "saveConfig partial path fs = Inr ?fs'"
    using ok by (rule saveConfig_ok)
  have ok': "?fs' (resolve_path home (configPath ?src)) \<noteq> Malformed"
    by (simp add: rp)
  from loadConfig_field [where fs = ?fs' and home = home and source = ?src and env = env
      and k = k] ok' obtain cfg where
    cfg: "loadConfig ?fs' env home ?src = Inr cfg"
      "field k cfg = highest [field k (override_values ov), field k (environment_values env),
                              field k ?merged, field k builtin_defaults]"
    by (auto simp add: rp file_values_def)
  have ok0: "fs (resolve_path home (configPath ?src)) \<noteq> Malformed"
    using ok by (simp add: rp)
  from loadConfig_field [where fs = fs and home = home and source = ?src and env = env
      and k = k] ok0 obtain cfg0 where
    cfg0: "loadConfig fs env home ?src = Inr cfg0"
      "field k cfg0 = highest [field k (override_values ov), field k (environment_values env),
                               field k (file_values (fs path)), field k builtin_defaults]"
    by (auto simp add: rp)
  have m: "field k ?merged = highest [field k partial, field k (file_values (fs path))]"
    by (rule field_spread)
  have stl: "save_then_load partial path fs env home ov = Inr cfg"
    by (simp add: save_then_load_def s cfg(1))
  have f: "field k cfg = highest [field k (override_values ov), field k (environment_values env),
                                 field k partial, field k (file_values (fs path)),
                                 field k builtin_defaults]"
    by (simp add: cfg(2) m split: option.splits)
  have g: "field k (override_values ov) = None \<and> field k (environment_values env) = None
             \<and> field k partial = Some v \<longrightarrow> field k cfg = Some v"
    by (simp add: f split: option.splits)
  have h: "field k partial = None \<longrightarrow> field k cfg = field k cfg0"
    by (simp add: f cfg0(2) split: option.splits)
  show "\<exists>cfg cfg0.
        saveConfig partial path fs
          = Inr (fs(path := Content (spread (file_values (fs path)) partial)))
        \<and> field k (spread (file_values (fs path)) partial)
            = highest [field k partial, field k (file_values (fs path))]
        \<and> save_then_load partial path fs env home ov = Inr cfg
        \<and> loadConfig fs env home \<lparr> configPath = Some path, projectOverride = ov \<rparr> = Inr cfg0
        \<and> field k cfg = highest [field k (override_values ov), field k (environment_values env),
                                 field k partial, field k (file_values (fs path)),
                                 field k builtin_defaults]
        \<and> (field k (override_values ov) = None \<and> field k (environment_values env) = None
             \<and> field k partial = Some v \<longrightarrow> field k cfg = Some v)
        \<and> (field k partial = None \<longrightarrow> field k cfg = field k cfg0)"
    apply (rule exI [of _ cfg])
    apply (rule exI [of _ cfg0])
    using s m stl cfg0(1) f g h by - (intro conjI; assumption)
qed

text \<open>
  C2 at a concrete input: the file holds an endpoint, a project id is saved, and the load
  yields the saved project id and the endpoint of the file.
\<close>

theorem saveConfig_roundtrip_witness:
  "scenario_files ''/tmp/config.json'' \<noteq> Malformed
   \<and> (\<exists>cfg. save_then_load update_partial ''/tmp/config.json'' scenario_files no_environment
               ''/home/u'' None = Inr cfg
          \<and> field ProjectId cfg = Some (Str ''updated-project'')
          \<and> field NatsUrl cfg = Some (Str ''nats://file:4222''))"
proof -
  let ?stl = "save_then_load update_partial ''/tmp/config.json'' scenario_files no_environment
       ''/home/u'' None"
  have h: "scenario_files ''/tmp/config.json'' \<noteq> Malformed"
    by (simp add: scenario_files_def)
  have a1: "field ProjectId (override_values None) = None
      \<and> field ProjectId (environment_values no_environment) = None
      \<and> field ProjectId update_partial = Some (Str ''updated-project'')"
    by (simp add: override_values_def environment_values_def no_environment_def
        update_partial_def empty_config_def)
  have a3: "highest [field NatsUrl (override_values None),
                     field NatsUrl (environment_values no_environment),
                     field NatsUrl update_partial,
                     field NatsUrl (file_values (scenario_files ''/tmp/config.json'')),
                     field NatsUrl builtin_defaults] = Some (Str ''nats://file:4222'')"
    by (simp add: override_values_def environment_values_def no_environment_def
        update_partial_def empty_config_def file_values_def scenario_files_def
        scenario_file_def)
  note R1 = saveConfig_roundtrip
    [where fs = scenario_files and path = "''/tmp/config.json''" and partial = update_partial
       and env = no_environment and home = "''/home/u''" and ov = None and k = ProjectId
       and v = "Str ''updated-project''", THEN mp, OF h]
  note R2 = saveConfig_roundtrip
    [where fs = scenario_files and path = "''/tmp/config.json''" and partial = update_partial
       and env = no_environment and home = "''/home/u''" and ov = None and k = NatsUrl
       and v = "Str ''unused''", THEN mp, OF h]
  from R1 obtain cfg where c1: "?stl = Inr cfg"
    "field ProjectId (override_values None) = None
      \<and> field ProjectId (environment_values no_environment) = None
      \<and> field ProjectId update_partial = Some (Str ''updated-project'')
     \<longrightarrow> field ProjectId cfg = Some (Str ''updated-project'')"
    by blast
  from R2 obtain cfg' where c2: "?stl = Inr cfg'"
    "field NatsUrl cfg' = highest [field NatsUrl (override_values None),
                     field NatsUrl (environment_values no_environment),
                     field NatsUrl update_partial,
                     field NatsUrl (file_values (scenario_files ''/tmp/config.json'')),
                     field NatsUrl builtin_defaults]"
    by blast
  from c1(1) c2(1) have same: "cfg' = cfg" by simp
  from c1(2) a1 have p: "field ProjectId cfg = Some (Str ''updated-project'')" by blast
  from c2(2) a3 same have n: "field NatsUrl cfg = Some (Str ''nats://file:4222'')"
    by (simp only:)
  from c1(1) p n have "\<exists>cfg. ?stl = Inr cfg
          \<and> field ProjectId cfg = Some (Str ''updated-project'')
          \<and> field NatsUrl cfg = Some (Str ''nats://file:4222'')"
    by blast
  with h show ?thesis by (rule conjI)
qed

text \<open>
  C3: \<open>validateConfig\<close> is a total function from candidates to lists of violation
  strings, with no state to change. A priority of 15 alone yields exactly the
  priority-range violation, the endpoint \<open>http://x\<close> the scheme violation, a boundary of
  three blanks the non-empty-boundary violation; a candidate that breaks all four rules
  gets all four violations, and a valid one none. Each violation is reported exactly when
  its own field breaks its rule, whatever the other fields hold.
\<close>

theorem validateConfig_reports_each_rule:
  "validateConfig (empty_config\<lparr> defaultPriority := Some 15 \<rparr>)
     = [''defaultPriority must be between 1 and 10'']
   \<and> validateConfig (empty_config\<lparr> natsUrl := Some ''http://x'' \<rparr>)
     = [''natsUrl must start with nats://'']
   \<and> validateConfig (empty_config\<lparr> defaultBoundary := Some ''   '' \<rparr>)
     = [''defaultBoundary must be a non-empty string'']
   \<and> validateConfig invalid_everywhere
     = [''natsUrl must start with nats://'', ''defaultPriority must be between 1 and 10'',
        ''defaultBoundary must be a non-empty string'',
        ''outputFormat must be either \"table\" or \"json\"'']
   \<and> validateConfig valid_candidate = []
   \<and> (''natsUrl must start with nats://'' \<in> set (validateConfig c))
       = (case natsUrl c of None \<Rightarrow> False | Some u \<Rightarrow> \<not> startsWith u ''nats://'')
   \<and> (''defaultPriority must be between 1 and 10'' \<in> set (validateConfig c))
       = (case defaultPriority c of None \<Rightarrow> False | Some p \<Rightarrow> p < 1 \<or> 10 < p)
   \<and> (''defaultBoundary must be a non-empty string'' \<in> set (validateConfig c))
       = (case defaultBoundary c of None \<Rightarrow> False | Some b \<Rightarrow> trim b = [])
   \<and> (''outputFormat must be either \"table\" or \"json\"'' \<in> set (validateConfig c))
       = (case outputFormat c of None \<Rightarrow> False | Some f \<Rightarrow> f \<noteq> ''table'' \<and> f \<noteq> ''json'')
   \<and> length (validateConfig c) \<le> 4"
  using validate_priority_15 validate_scheme_http validate_blank_boundary
    validate_invalid_everywhere validate_valid_candidate
    scheme_rule_reported [of c] priority_rule_reported [of c] boundary_rule_reported [of c]
    format_rule_reported [of c] validateConfig_length [of c]
  by (intro conjI)

section \<open>Claims about the subject builders\<close>

text \<open>
  C4 (as stated, refuted): every method returns a subject of the shape
  \<open>root.<project>.<category>.<operation>[.<id>]\<close>. The method \<open>stats\<close> returns
  \<open>loom.<project>.stats\<close>, which has no operation token: for the project \<open>default\<close> no
  category, operation and optional id give that string.
\<close>

theorem stats_outside_hierarchy_counterexample:
  "\<not> fits_hierarchy ''default'' (stats ''default'')"
  by (auto simp add: fits_hierarchy_def hierarchy_def categories_def stats_def)

text \<open>
  C4 (amended): every method other than \<open>agentDetails\<close> and \<open>stats\<close> returns
  \<open>loom.<project>.<category>.<operation>\<close>, with the work item id appended for
  \<open>workStatus\<close>, for its own fixed category and operation; \<open>agentDetails\<close> returns
  \<open>loom.<project>.agents.<agentGuid>\<close>, with the id where the operation would be, and
  \<open>stats\<close> returns \<open>loom.<project>.stats\<close>, the category alone.
\<close>

theorem LoomSubjects_shapes:
  "workSubmit p = hierarchy ''loom'' p ''work'' ''submit'' None
   \<and> workStatus p i = hierarchy ''loom'' p ''work'' ''status'' (Some i)
   \<and> workList p = hierarchy ''loom'' p ''work'' ''list'' None
   \<and> workGet p = hierarchy ''loom'' p ''work'' ''get'' None
   \<and> workCancel p = hierarchy ''loom'' p ''work'' ''cancel'' None
   \<and> agentsList p = hierarchy ''loom'' p ''agents'' ''list'' None
   \<and> agentShutdown p = hierarchy ''loom'' p ''agents'' ''shutdown'' None
   \<and> targetsList p = hierarchy ''loom'' p ''targets'' ''list'' None
   \<and> targetsRegister p = hierarchy ''loom'' p ''targets'' ''register'' None
   \<and> targetsGet p = hierarchy ''loom'' p ''targets'' ''get'' None
   \<and> targetsUpdate p = hierarchy ''loom'' p ''targets'' ''update'' None
   \<and> targetsRemove p = hierarchy ''loom'' p ''targets'' ''remove'' None
   \<and> targetsTest p = hierarchy ''loom'' p ''targets'' ''test'' None
   \<and> targetsEnable p = hierarchy ''loom'' p ''targets'' ''enable'' None
   \<and> targetsDisable p = hierarchy ''loom'' p ''targets'' ''disable'' None
   \<and> spinUpTrigger p = hierarchy ''loom'' p ''spinup'' ''trigger'' None
   \<and> spinUpStatus p = hierarchy ''loom'' p ''spinup'' ''status'' None
   \<and> spinUpList p = hierarchy ''loom'' p ''spinup'' ''list'' None
   \<and> agentDetails p g = ''loom.'' @ p @ ''.agents.'' @ g
   \<and> stats p = ''loom.'' @ p @ ''.stats''"
  by (simp add: LoomSubjects_defs hierarchy_def)

text \<open>
  C5 (as stated, refuted): invocations that differ in the project id give different
  subjects. A project id is any string and may contain dots: the status subject of the
  work item \<open>work.list\<close> in project \<open>a\<close> is the list subject of project
  \<open>a.work.status\<close>, and the status subject of the work item \<open>stats\<close> in project \<open>a\<close> is
  the stats subject of project \<open>a.work.status\<close> (another category as well).
\<close>

theorem dotted_project_collision_counterexample:
  "''a'' \<noteq> ''a.work.status''
   \<and> invoke ''a'' (WorkStatus ''work.list'') = invoke ''a.work.status'' WorkList
   \<and> category (WorkStatus ''stats'') \<noteq> category Stats
   \<and> invoke ''a'' (WorkStatus ''stats'') = invoke ''a.work.status'' Stats"
  by (simp add: LoomSubjects_defs)

text \<open>
  C5 (amended): the subject is a function of project id, category, operation and id
  (equal inputs give equal strings). Two invocations give different subjects when
  they have the same project id and different categories; when they are the same
  invocation under different project ids; when they have the same operation and id,
  different categories, and any project ids; and when their project ids differ and
  neither contains a dot.
\<close>

theorem LoomSubjects_collision_free:
  "(category m1 = category m2 \<and> operation m1 = operation m2 \<and> entityId m1 = entityId m2
      \<longrightarrow> invoke p m1 = invoke p m2)
   \<and> (category m1 \<noteq> category m2 \<longrightarrow> invoke p m1 \<noteq> invoke p m2)
   \<and> (p1 \<noteq> p2 \<longrightarrow> invoke p1 m1 \<noteq> invoke p2 m1)
   \<and> (operation m1 = operation m2 \<and> entityId m1 = entityId m2 \<and> category m1 \<noteq> category m2
      \<longrightarrow> invoke p1 m1 \<noteq> invoke p2 m2)
   \<and> (p1 \<noteq> p2 \<and> CHR ''.'' \<notin> set p1 \<and> CHR ''.'' \<notin> set p2
      \<longrightarrow> invoke p1 m1 \<noteq> invoke p2 m2)"
proof (intro conjI impI)
  assume "category m1 = category m2 \<and> operation m1 = operation m2 \<and> entityId m1 = entityId m2"
  then have "m1 = m2" by (simp add: invoke_determined)
  then show "invoke p m1 = invoke p m2" by simp
next
  assume "category m1 \<noteq> category m2"
  then show "invoke p m1 \<noteq> invoke p m2"
    using invoke_same_project_category by blast
next
  assume "p1 \<noteq> p2"
  then show "invoke p1 m1 \<noteq> invoke p2 m1"
    using invoke_same_invocation_project by blast
next
  assume "operation m1 = operation m2 \<and> entityId m1 = entityId m2 \<and> category m1 \<noteq> category m2"
  then have "rev (invoke p1 m1) \<noteq> rev (invoke p2 m2)"
    using invoke_same_operation_rev by blast
  then show "invoke p1 m1 \<noteq> invoke p2 m2" by auto
next
  assume "p1 \<noteq> p2 \<and> CHR ''.'' \<notin> set p1 \<and> CHR ''.'' \<notin> set p2"
  then show "invoke p1 m1 \<noteq> invoke p2 m2"
    using invoke_dot_free_projects by blast
qed

text \<open>
  C5 at concrete inputs: the list subjects of two categories and of two dot-free projects.
\<close>

theorem LoomSubjects_collision_free_witness:
  "invoke ''default'' WorkList = ''loom.default.work.list''
   \<and> invoke ''default'' WorkList \<noteq> invoke ''default'' AgentsList
   \<and> invoke ''a'' WorkList \<noteq> invoke ''b'' WorkList
   \<and> invoke ''a'' WorkList \<noteq> invoke ''b'' AgentsList
   \<and> category WorkList \<noteq> category AgentsList
   \<and> operation WorkList = operation AgentsList
   \<and> entityId WorkList = entityId AgentsList
   \<and> ''a'' \<noteq> ''b'' \<and> CHR ''.'' \<notin> set ''a'' \<and> CHR ''.'' \<notin> set ''b''"
  using LoomSubjects_collision_free
    [where ?m1.0 = WorkList and ?m2.0 = AgentsList and p = "''default''"
       and ?p1.0 = "''a''" and ?p2.0 = "''b''"]
  by (simp add: LoomSubjects_defs)

section \<open>Claims about the NATS client helper\<close>

text \<open>
  C6: while the cached connection exists and is not closed, \<open>getNATSConnection\<close> returns
  it and changes nothing (no connection is created, nothing is read). Otherwise a
  connection it returns is a newly created one, open and stored in the cache, it does
  return one when the credentials can be read and \<open>connect\<close> succeeds, and a call that
  throws leaves the cache as it was. \<open>closeNATSConnection\<close> on an open cached connection
  drains it, then closes it, and resets the cache to null; after \<open>closeNATSConnection\<close>
  no open connection is cached, so the next acquisition connects anew.
\<close>

theorem connection_cache_state_machine:
  "(cachedConnection s = Some c \<and> \<not> isClosed s c
      \<longrightarrow> getNATSConnection readFile connect config s = (Inr c, s))
   \<and> (cachedOpen t = None \<and> getNATSConnection readFile connect config t = (Inr c', t')
      \<longrightarrow> c' = created t \<and> cachedConnection t' = Some c' \<and> \<not> isClosed t' c'
          \<and> created t' = Suc (created t)
          \<and> length (connects (events t')) = Suc (length (connects (events t))))
   \<and> (cachedOpen t = None \<and> (\<forall>opts. connect opts = None)
        \<and> (\<forall>path. \<exists>content. readFile path = Inr content)
      \<longrightarrow> fst (getNATSConnection readFile connect config t) = Inr (created t))
   \<and> (getNATSConnection readFile2 connect2 config2 u = (Inl e, u')
      \<longrightarrow> cachedConnection u' = cachedConnection u \<and> created u' = created u)
   \<and> (cachedConnection s = Some c \<and> \<not> isClosed s c
      \<longrightarrow> closeNATSConnection s =
            s\<lparr>events := events s @ [Drain c, Close c],
              isClosed := (isClosed s)(c := True),
              cachedConnection := None\<rparr>)
   \<and> cachedOpen (closeNATSConnection s) = None
   \<and> ((\<forall>opts. connect opts = None) \<and> (\<forall>path. \<exists>content. readFile path = Inr content)
      \<longrightarrow> fst (getNATSConnection readFile connect config (closeNATSConnection s))
            = Inr (created s)
          \<and> length (connects (events (snd (getNATSConnection readFile connect config
                 (closeNATSConnection s)))))
            = Suc (length (connects (events s))))"
proof -
  have a: "cachedConnection s = Some c \<and> \<not> isClosed s c
      \<longrightarrow> getNATSConnection readFile connect config s = (Inr c, s)"
    by (simp add: get_hit cachedOpen_Some)
  have b: "cachedOpen t = None \<and> getNATSConnection readFile connect config t = (Inr c', t')
      \<longrightarrow> c' = created t \<and> cachedConnection t' = Some c' \<and> \<not> isClosed t' c'
          \<and> created t' = Suc (created t)
          \<and> length (connects (events t')) = Suc (length (connects (events t)))"
    using get_miss_Inr by blast
  have c: "cachedOpen t = None \<and> (\<forall>opts. connect opts = None)
        \<and> (\<forall>path. \<exists>content. readFile path = Inr content)
      \<longrightarrow> fst (getNATSConnection readFile connect config t) = Inr (created t)"
    using get_progress by blast
  have d: "getNATSConnection readFile2 connect2 config2 u = (Inl e, u')
      \<longrightarrow> cachedConnection u' = cachedConnection u \<and> created u' = created u"
    using get_Inl by blast
  have e: "cachedConnection s = Some c \<and> \<not> isClosed s c
      \<longrightarrow> closeNATSConnection s =
            s\<lparr>events := events s @ [Drain c, Close c],
              isClosed := (isClosed s)(c := True),
              cachedConnection := None\<rparr>"
    by (simp add: close_open cachedOpen_Some)
  have f: "cachedOpen (closeNATSConnection s) = None"
    by (rule cachedOpen_close)
  have g: "(\<forall>opts. connect opts = None) \<and> (\<forall>path. \<exists>content. readFile path = Inr content)
      \<longrightarrow> fst (getNATSConnection readFile connect config (closeNATSConnection s))
            = Inr (created s)
          \<and> length (connects (events (snd (getNATSConnection readFile connect config
                 (closeNATSConnection s)))))
            = Suc (length (connects (events s)))"
    using reconnect_after_close by blast
  from a b c d e f g show ?thesis by blast
qed

text \<open>
  C6 at concrete inputs: a state with an open cached connection, and a state with none.
\<close>

theorem connection_cache_state_machine_witness:
  "getNATSConnection readable reachable no_creds_config warm_state = (Inr 0, warm_state)
   \<and> cachedOpen fresh_state = None
   \<and> fst (getNATSConnection readable reachable no_creds_config fresh_state) = Inr 0
   \<and> cachedConnection (snd (getNATSConnection readable reachable no_creds_config fresh_state))
       = Some 0
   \<and> created (snd (getNATSConnection readable reachable no_creds_config fresh_state)) = 1
   \<and> fst (getNATSConnection unreadable reachable creds_config fresh_state)
       = Inl ''Failed to read NATS credentials file: /etc/loom/nats.creds: ENOENT: no such file or directory''
   \<and> cachedConnection (snd (getNATSConnection unreadable reachable creds_config fresh_state))
       = None
   \<and> cachedConnection (closeNATSConnection warm_state) = None
   \<and> events (closeNATSConnection warm_state)
       = [Connect (initial_options no_creds_config), Drain 0, Close 0]
   \<and> isClosed (closeNATSConnection warm_state) 0
   \<and> fst (getNATSConnection readable reachable no_creds_config (closeNATSConnection warm_state))
       = Inr 1"
proof -
  let ?g = "getNATSConnection readable reachable no_creds_config fresh_state"
  let ?f = "getNATSConnection unreadable reachable creds_config fresh_state"
  have h1: "cachedConnection warm_state = Some 0 \<and> \<not> isClosed warm_state 0"
    by (simp add: warm_state_def)
  have h2: "cachedOpen fresh_state = None"
    by (simp add: cachedOpen_def fresh_state_def)
  have h3: "\<not> truthy (natsCredentials no_creds_config)"
    by (simp add: truthy_def no_creds_config_def)
  have h4: "(\<forall>opts. reachable opts = None) \<and> (\<forall>path. \<exists>content. readable path = Inr content)"
    by (simp add: reachable_def readable_def)
  have h5: "fst ?g = Inr 0"
    using get_no_creds [OF h2 h3, of readable reachable]
    by (simp add: connect_and_cache_def reachable_def fresh_state_def)
  then have h6: "?g = (Inr 0, snd ?g)"
    by (metis prod.collapse)
  have h7: "fst ?f
      = Inl ''Failed to read NATS credentials file: /etc/loom/nats.creds: ENOENT: no such file or directory''"
    using get_creds_unreadable [OF h2, of creds_config "''/etc/loom/nats.creds''" unreadable
        "''ENOENT: no such file or directory''" reachable]
    by (simp add: creds_config_def unreadable_def)
  then have h8: "?f = (Inl ''Failed to read NATS credentials file: /etc/loom/nats.creds: ENOENT: no such file or directory'', snd ?f)"
    by (metis prod.collapse)
  have c0: "created fresh_state = 0" "created warm_state = 1"
    "cachedConnection fresh_state = None"
    "events warm_state = [Connect (initial_options no_creds_config)]"
    by (simp_all add: fresh_state_def warm_state_def)
  note T = connection_cache_state_machine
    [where s = warm_state and c = 0 and t = fresh_state and c' = 0 and t' = "snd ?g"
       and readFile = readable and connect = reachable and config = no_creds_config
       and ?readFile2.0 = unreadable and ?connect2.0 = reachable and ?config2.0 = creds_config
       and u = fresh_state and u' = "snd ?f"
       and e = "''Failed to read NATS credentials file: /etc/loom/nats.creds: ENOENT: no such file or directory''"]
  from T h1 h2 h4 h6 h8 have
    r1: "getNATSConnection readable reachable no_creds_config warm_state = (Inr 0, warm_state)"
    and r2: "cachedConnection (snd ?g) = Some 0" "created (snd ?g) = Suc (created fresh_state)"
    and r3: "cachedConnection (snd ?f) = cachedConnection fresh_state"
    and r4: "closeNATSConnection warm_state =
            warm_state\<lparr>events := events warm_state @ [Drain 0, Close 0],
              isClosed := (isClosed warm_state)(0 := True),
              cachedConnection := None\<rparr>"
    and r5: "fst (getNATSConnection readable reachable no_creds_config
               (closeNATSConnection warm_state)) = Inr (created warm_state)"
    by blast+
  from r4 have r6: "cachedConnection (closeNATSConnection warm_state) = None"
    "events (closeNATSConnection warm_state) = events warm_state @ [Drain 0, Close 0]"
    "isClosed (closeNATSConnection warm_state) 0"
    by simp_all
  from r1 h2 h5 r2 h7 r3 r6 r5 c0 show ?thesis by simp
qed

text \<open>
  C7 (as stated, refuted): whenever a credential path is configured, \<open>getNATSConnection\<close>
  reads the file and authenticates the connection with its contents. With an open cached
  connection that was created without credentials, the call returns that connection and
  reads nothing; and the earlier generation of the helper connects without an
  authenticator and reads nothing, whatever the configuration.
\<close>

theorem cached_connection_skips_credentials_counterexample:
  "natsCredentials creds_config = Some ''/etc/loom/nats.creds''
   \<and> getNATSConnection readable reachable creds_config warm_state = (Inr 0, warm_state)
   \<and> reads (events warm_state) = []
   \<and> map authenticator (connects (events warm_state)) = [None]
   \<and> events (snd (getNATSConnection_0 reachable creds_config fresh_state))
       = [Connect (initial_options creds_config)]
   \<and> authenticator (initial_options creds_config) = None"
proof -
  have h1: "cachedOpen warm_state = Some 0"
    by (simp add: cachedOpen_def warm_state_def)
  have h2: "cachedOpen fresh_state = None"
    by (simp add: cachedOpen_def fresh_state_def)
  have a: "natsCredentials creds_config = Some ''/etc/loom/nats.creds''"
    by (simp add: creds_config_def)
  have b: "getNATSConnection readable reachable creds_config warm_state = (Inr 0, warm_state)"
    using h1 by (rule get_hit)
  have c: "reads (events warm_state) = []"
    "map authenticator (connects (events warm_state)) = [None]"
    by (simp_all add: warm_state_def initial_options_def)
  have d: "events (snd (getNATSConnection_0 reachable creds_config fresh_state))
       = [Connect (initial_options creds_config)]"
    by (simp add: get_0_miss h2 connect_and_cache_events) (simp add: fresh_state_def)
  have e: "authenticator (initial_options creds_config) = None"
    by (simp add: initial_options_def)
  from a b c d e show ?thesis by simp
qed

text \<open>
  C7 (amended): in the generation of the helper that supports credentials, a call that
  finds no open cached connection and a configured (non-empty) credential path reads that
  file and then connects with an authenticator made of its contents; if the read throws,
  the call throws \<open>Failed to read NATS credentials file: <path>: <cause>\<close>, without
  connecting and without touching the cache; with no credential path configured no call
  reads a file.
\<close>

theorem credentials_read_when_connecting:
  "(natsCredentials config = Some path \<and> path \<noteq> [] \<and> cachedOpen s = None
      \<and> readFile path = Inr content
      \<longrightarrow> events (snd (getNATSConnection readFile connect config s))
           = events s @ [ReadFile path,
                Connect ((initial_options config)\<lparr>authenticator := Some content\<rparr>)])
   \<and> (natsCredentials config2 = Some path2 \<and> path2 \<noteq> [] \<and> cachedOpen t = None
      \<and> readFile2 path2 = Inl err
      \<longrightarrow> getNATSConnection readFile2 connect2 config2 t
           = (Inl (''Failed to read NATS credentials file: '' @ path2 @ '': '' @ err),
              t\<lparr>events := events t @ [ReadFile path2]\<rparr>))
   \<and> (\<not> truthy (natsCredentials config3)
      \<longrightarrow> reads (events (snd (getNATSConnection readFile3 connect3 config3 u)))
           = reads (events u))"
proof -
  have a: "natsCredentials config = Some path \<and> path \<noteq> [] \<and> cachedOpen s = None
      \<and> readFile path = Inr content
      \<longrightarrow> events (snd (getNATSConnection readFile connect config s))
           = events s @ [ReadFile path,
                Connect ((initial_options config)\<lparr>authenticator := Some content\<rparr>)]"
    by (simp add: get_creds_read connect_and_cache_events)
  have b: "natsCredentials config2 = Some path2 \<and> path2 \<noteq> [] \<and> cachedOpen t = None
      \<and> readFile2 path2 = Inl err
      \<longrightarrow> getNATSConnection readFile2 connect2 config2 t
           = (Inl (''Failed to read NATS credentials file: '' @ path2 @ '': '' @ err),
              t\<lparr>events := events t @ [ReadFile path2]\<rparr>)"
    by (simp add: get_creds_unreadable)
  have c: "\<not> truthy (natsCredentials config3)
      \<longrightarrow> reads (events (snd (getNATSConnection readFile3 connect3 config3 u)))
           = reads (events u)"
    by (simp add: get_no_creds_reads)
  from a b c show ?thesis by blast
qed

text \<open>C7 at concrete inputs: a readable and an unreadable credential file.\<close>

theorem credentials_read_when_connecting_witness:
  "events (snd (getNATSConnection readable reachable creds_config fresh_state))
     = [ReadFile ''/etc/loom/nats.creds'',
        Connect ((initial_options creds_config)\<lparr>authenticator := Some ''SECRET''\<rparr>)]
   \<and> getNATSConnection unreadable reachable creds_config fresh_state
     = (Inl ''Failed to read NATS credentials file: /etc/loom/nats.creds: ENOENT: no such file or directory'',
        fresh_state\<lparr>events := [ReadFile ''/etc/loom/nats.creds'']\<rparr>)
   \<and> reads (events (snd (getNATSConnection readable reachable no_creds_config fresh_state)))
     = []"
proof -
  have h1: "natsCredentials creds_config = Some ''/etc/loom/nats.creds''
      \<and> ''/etc/loom/nats.creds'' \<noteq> [] \<and> cachedOpen fresh_state = None
      \<and> readable ''/etc/loom/nats.creds'' = Inr ''SECRET''"
    by (simp add: creds_config_def cachedOpen_def fresh_state_def readable_def)
  have h2: "unreadable ''/etc/loom/nats.creds'' = Inl ''ENOENT: no such file or directory''"
    by (simp add: unreadable_def)
  have h3: "\<not> truthy (natsCredentials no_creds_config)"
    by (simp add: truthy_def no_creds_config_def)
  have e0: "events fresh_state = []" by (simp add: fresh_state_def)
  from credentials_read_when_connecting
    [where config = creds_config and path = "''/etc/loom/nats.creds''" and s = fresh_state
       and readFile = readable and content = "''SECRET''" and connect = reachable
       and ?config2.0 = creds_config and ?path2.0 = "''/etc/loom/nats.creds''"
       and t = fresh_state and ?readFile2.0 = unreadable and ?connect2.0 = reachable
       and err = "''ENOENT: no such file or directory''"
       and ?config3.0 = no_creds_config and ?readFile3.0 = readable
       and ?connect3.0 = reachable and u = fresh_state]
    h1 h2 h3
  show ?thesis by (simp add: e0)
qed

text \<open>
  C9: with no credential path configured, the two generations of \<open>getNATSConnection\<close> are
  the same function of configuration and state, and \<open>closeNATSConnection\<close> is the same in
  both; on a cache miss each calls \<open>connect\<close> once, with the servers of the configuration
  (\<open>nats://localhost:4222\<close> when the endpoint is absent), the name \<open>loom-shuttle\<close>, 10
  reconnect attempts, 1000 ms between attempts and no authenticator.
\<close>

theorem generations_agree_without_credentials:
  "(\<not> truthy (natsCredentials config)
      \<longrightarrow> getNATSConnection readFile connect config s = getNATSConnection_0 connect config s)
   \<and> closeNATSConnection s = closeNATSConnection_0 s
   \<and> (\<not> truthy (natsCredentials config) \<and> cachedOpen t = None
      \<longrightarrow> connects (events (snd (getNATSConnection readFile connect config t)))
            = connects (events t) @
              [\<lparr> servers = or_else (natsUrl config) ''nats://localhost:4222'',
                 name = ''loom-shuttle'', maxReconnectAttempts = 10,
                 reconnectTimeWait = 1000, authenticator = None \<rparr>]
          \<and> connects (events (snd (getNATSConnection_0 connect config t)))
            = connects (events t) @
              [\<lparr> servers = or_else (natsUrl config) ''nats://localhost:4222'',
                 name = ''loom-shuttle'', maxReconnectAttempts = 10,
                 reconnectTimeWait = 1000, authenticator = None \<rparr>])
   \<and> (natsUrl config2 = None \<longrightarrow> or_else (natsUrl config2) ''nats://localhost:4222''
          = ''nats://localhost:4222'')"
proof -
  have a: "\<not> truthy (natsCredentials config)
      \<longrightarrow> getNATSConnection readFile connect config s = getNATSConnection_0 connect config s"
  proof (cases "cachedOpen s")
    case None
    then show ?thesis by (simp add: get_no_creds get_0_miss)
  next
    case (Some c)
    then show ?thesis by (simp add: get_hit get_0_hit)
  qed
  have b: "closeNATSConnection s = closeNATSConnection_0 s"
    by (simp add: closeNATSConnection_def closeNATSConnection_0_def)
  have c: "\<not> truthy (natsCredentials config) \<and> cachedOpen t = None
      \<longrightarrow> connects (events (snd (getNATSConnection readFile connect config t)))
            = connects (events t) @
              [\<lparr> servers = or_else (natsUrl config) ''nats://localhost:4222'',
                 name = ''loom-shuttle'', maxReconnectAttempts = 10,
                 reconnectTimeWait = 1000, authenticator = None \<rparr>]
          \<and> connects (events (snd (getNATSConnection_0 connect config t)))
            = connects (events t) @
              [\<lparr> servers = or_else (natsUrl config) ''nats://localhost:4222'',
                 name = ''loom-shuttle'', maxReconnectAttempts = 10,
                 reconnectTimeWait = 1000, authenticator = None \<rparr>]"
    by (simp add: get_no_creds get_0_miss connect_and_cache_events initial_options_def)
  have d: "natsUrl config2 = None \<longrightarrow> or_else (natsUrl config2) ''nats://localhost:4222''
          = ''nats://localhost:4222''"
    by (simp add: or_else_def)
  from a b c d show ?thesis by blast
qed

text \<open>C9 at a concrete input: the first connection of a process, nothing configured.\<close>

theorem generations_agree_without_credentials_witness:
  "getNATSConnection readable reachable no_creds_config fresh_state
     = getNATSConnection_0 reachable no_creds_config fresh_state
   \<and> connects (events (snd (getNATSConnection_0 reachable no_creds_config fresh_state)))
     = [\<lparr> servers = ''nats://localhost:4222'', name = ''loom-shuttle'',
          maxReconnectAttempts = 10, reconnectTimeWait = 1000, authenticator = None \<rparr>]"
proof -
  have h1: "\<not> truthy (natsCredentials no_creds_config)"
    by (simp add: truthy_def no_creds_config_def)
  have h2: "cachedOpen fresh_state = None"
    by (simp add: cachedOpen_def fresh_state_def)
  have h3: "natsUrl no_creds_config = None"
    by (simp add: no_creds_config_def)
  have e0: "events fresh_state = []" by (simp add: fresh_state_def)
  from generations_agree_without_credentials
    [where config = no_creds_config and readFile = readable and connect = reachable
       and s = fresh_state and t = fresh_state and ?config2.0 = no_creds_config]
    h1 h2 h3
  show ?thesis by (simp add: e0)
qed

section \<open>Claims about the command actions\<close>

text \<open>
  C8 (the code falls short of it): a 404 for a requested entity is reported with a
  specific not-found message naming the entity. \<open>targetsShowCommand\<close> does so. The
  actions for a work item and for an agent do not look at the status: a 404 without an
  error text is reported as \<open>HTTP 404\<close>, in the form a 500 is reported, and the message
  never depends on the id that was asked for.
\<close>

theorem workShowAction_not_found_is_generic:
  "workShowAction ''w-42'' not_found = Some ''Error: HTTP 404''
   \<and> workShowAction ''w-42'' server_error = Some ''Error: HTTP 500''
   \<and> workShowAction w response = workShowAction w' response
   \<and> workCancelAction ''w-42'' not_found = Some ''Error: HTTP 404''
   \<and> shutdownCommand ''agent-7'' not_found = Some ''Error: HTTP 404''
   \<and> targetsShowCommand ''build-box'' not_found = Some ''Error: Target not found: build-box''
   \<and> targetsShowCommand ''build-box'' server_error = Some ''Error: HTTP 500''
   \<and> workShowAction ''w-42'' (not_found\<lparr> error := Some ''Not Found'' \<rparr>)
       = Some ''Error: Not Found''
   \<and> targetsShowCommand ''build-box'' (not_found\<lparr> error := Some ''Not Found'' \<rparr>)
       = Some ''Error: Target not found: build-box''"
  by (simp add: workShowAction_def workCancelAction_def shutdownCommand_def
      targetsShowCommand_def failure_message_def report_def or_else_def not_found_def
      server_error_def string_of_nat_404 string_of_nat_500)

text \<open>
  C10 (as stated, refuted): the priority submitted is the \<open>--priority\<close> value when given.
  The value 0 is given and parsed, and is falsy: the configured default 7 is submitted.
\<close>

theorem zero_priority_option_counterexample:
  "priority (cli_options\<lparr> priority := Some (Num 0) \<rparr>) = Some (Num 0)
   \<and> submitCommand True (Some ''deploy'') (cli_options\<lparr> priority := Some (Num 0) \<rparr>)
        (empty_config\<lparr> defaultPriority := Some 7 \<rparr>)
      = Submit (WorkDetails ''deploy'' ''production'' ''typescript'' (Num 7))"
  by (simp add: submitCommand_def cli_options_def truthy_def priority_or_default_def
      empty_config_def trim_def is_space_def)

text \<open>
  C10 (amended): when the submit action goes on to submit without prompting, the priority
  is the \<open>--priority\<close> value if that is a number other than 0; otherwise (absent, not a
  number, or 0) the configured \<open>defaultPriority\<close> if that is present and not 0; otherwise
  5. It is never unset: it is a number and not 0.
\<close>

theorem submit_priority_resolution:
  "submitCommand json description options config = Submit wd \<longrightarrow>
     (priority options = Some (Num n) \<and> n \<noteq> 0 \<longrightarrow> wdPriority wd = Num n)
     \<and> (\<not> truthy_number (priority options) \<and> defaultPriority config = Some d \<and> d \<noteq> 0
          \<longrightarrow> wdPriority wd = Num d)
     \<and> (\<not> truthy_number (priority options)
          \<and> (defaultPriority config = None \<or> defaultPriority config = Some 0)
          \<longrightarrow> wdPriority wd = Num 5)
     \<and> wdPriority wd \<noteq> NaN \<and> wdPriority wd \<noteq> Num 0"
proof
  assume "submitCommand json description options config = Submit wd"
  then have "wdPriority wd = priority_or_default (priority options) (defaultPriority config)"
    by (rule submitCommand_priority)
  then show "(priority options = Some (Num n) \<and> n \<noteq> 0 \<longrightarrow> wdPriority wd = Num n)
     \<and> (\<not> truthy_number (priority options) \<and> defaultPriority config = Some d \<and> d \<noteq> 0
          \<longrightarrow> wdPriority wd = Num d)
     \<and> (\<not> truthy_number (priority options)
          \<and> (defaultPriority config = None \<or> defaultPriority config = Some 0)
          \<longrightarrow> wdPriority wd = Num 5)
     \<and> wdPriority wd \<noteq> NaN \<and> wdPriority wd \<noteq> Num 0"
    using priority_or_default_cases
      [of "priority options" n "defaultPriority config" d]
    by simp
qed

text \<open>
  C10 at concrete inputs: the option 8 with a default of 7, no option with a default of 7,
  and an option that is not a number with no default.
\<close>

theorem submit_priority_resolution_witness:
  "submitCommand True (Some ''deploy'') (cli_options\<lparr> priority := Some (Num 8) \<rparr>)
       (empty_config\<lparr> defaultPriority := Some 7 \<rparr>)
     = Submit (WorkDetails ''deploy'' ''production'' ''typescript'' (Num 8))
   \<and> submitCommand True (Some ''deploy'') cli_options
       (empty_config\<lparr> defaultPriority := Some 7 \<rparr>)
     = Submit (WorkDetails ''deploy'' ''production'' ''typescript'' (Num 7))
   \<and> submitCommand True (Some ''deploy'') (cli_options\<lparr> priority := Some NaN \<rparr>) empty_config
     = Submit (WorkDetails ''deploy'' ''production'' ''typescript'' (Num 5))
   \<and> wdPriority (WorkDetails ''deploy'' ''production'' ''typescript'' (Num 8)) = Num 8
   \<and> wdPriority (WorkDetails ''deploy'' ''production'' ''typescript'' (Num 7)) = Num 7
   \<and> wdPriority (WorkDetails ''deploy'' ''production'' ''typescript'' (Num 5)) = Num 5"
proof -
  have s1: "submitCommand True (Some ''deploy'') (cli_options\<lparr> priority := Some (Num 8) \<rparr>)
       (empty_config\<lparr> defaultPriority := Some 7 \<rparr>)
     = Submit (WorkDetails ''deploy'' ''production'' ''typescript'' (Num 8))"
    by (simp add: submitCommand_def cli_options_def truthy_def priority_or_default_def
        empty_config_def trim_def is_space_def)
  have s2: "submitCommand True (Some ''deploy'') cli_options
       (empty_config\<lparr> defaultPriority := Some 7 \<rparr>)
     = Submit (WorkDetails ''deploy'' ''production'' ''typescript'' (Num 7))"
    by (simp add: submitCommand_def cli_options_def truthy_def priority_or_default_def
        empty_config_def trim_def is_space_def)
  have s3: "submitCommand True (Some ''deploy'') (cli_options\<lparr> priority := Some NaN \<rparr>)
       empty_config
     = Submit (WorkDetails ''deploy'' ''production'' ''typescript'' (Num 5))"
    by (simp add: submitCommand_def cli_options_def truthy_def priority_or_default_def
        empty_config_def trim_def is_space_def)
  have h1: "priority (cli_options\<lparr> priority := Some (Num 8) \<rparr>) = Some (Num 8) \<and> (8::int) \<noteq> 0"
    by simp
  have h2: "\<not> truthy_number (priority cli_options)
      \<and> defaultPriority (empty_config\<lparr> defaultPriority := Some 7 \<rparr>) = Some 7 \<and> (7::int) \<noteq> 0"
    by (simp add: truthy_number_def cli_options_def)
  have h3: "\<not> truthy_number (priority (cli_options\<lparr> priority := Some NaN \<rparr>))
      \<and> (defaultPriority empty_config = None \<or> defaultPriority empty_config = Some 0)"
    by (simp add: truthy_number_def empty_config_def)
  from submit_priority_resolution
    [where json = True and description = "Some ''deploy''"
       and options = "cli_options\<lparr> priority := Some (Num 8) \<rparr>"
       and config = "empty_config\<lparr> defaultPriority := Some 7 \<rparr>"
       and wd = "WorkDetails ''deploy'' ''production'' ''typescript'' (Num 8)"
       and n = 8 and d = 7] s1 h1
  have r1: "wdPriority (WorkDetails ''deploy'' ''production'' ''typescript'' (Num 8)) = Num 8"
    by blast
  from submit_priority_resolution
    [where json = True and description = "Some ''deploy''" and options = cli_options
       and config = "empty_config\<lparr> defaultPriority := Some 7 \<rparr>"
       and wd = "WorkDetails ''deploy'' ''production'' ''typescript'' (Num 7)"
       and n = 8 and d = 7] s2 h2
  have r2: "wdPriority (WorkDetails ''deploy'' ''production'' ''typescript'' (Num 7)) = Num 7"
    by blast
  from submit_priority_resolution
    [where json = True and description = "Some ''deploy''"
       and options = "cli_options\<lparr> priority := Some NaN \<rparr>" and config = empty_config
       and wd = "WorkDetails ''deploy'' ''production'' ''typescript'' (Num 5)"
       and n = 8 and d = 7] s3 h3
  have r3: "wdPriority (WorkDetails ''deploy'' ''production'' ''typescript'' (Num 5)) = Num 5"
    by blast
  from s1 s2 s3 r1 r2 r3 show ?thesis by (intro conjI)
qed

end
